theory Spec2Isabelle
  imports Complex_Main "HOL-Library.Word" "HOL-Library.Sublist"
begin

section \<open>The loggers of compboost (src/logger.cpp)\<close>

text \<open>
  The file \<^verbatim>\<open>logger.cpp\<close> implements four classes derived from the abstract class
  \<^verbatim>\<open>Logger\<close>: \<^verbatim>\<open>LoggerIteration\<close>, \<^verbatim>\<open>LoggerInbagRisk\<close>, \<^verbatim>\<open>LoggerOobRisk\<close> and
  \<^verbatim>\<open>LoggerTime\<close>. Each class is a record extending the record of the base class, each
  member function is a function from the object (and the arguments) to the result and
  the object after the call.

  Conventions of the embedding:
  \<^item> \<^verbatim>\<open>unsigned int\<close> is \<open>32 word\<close>; comparison of words is the unsigned comparison.
  \<^item> A \<^verbatim>\<open>double\<close> that the program stores is the real number it denotes, and
    \<^verbatim>\<open>arma::vec\<close> is \<open>real list\<close>: a stored value is finite, and a stored zero is
    \<open>+0.0\<close>. The sums, products and means of \<^verbatim>\<open>logStep\<close> are exact. The subtraction and
    the division in the stop criteria of the two risk loggers decide a test; they are
    the operations of IEEE 754 binary64, rounded to the nearest double with ties to
    even, and their result can be an infinity or NaN.
  \<^item> \<^verbatim>\<open>std::vector<T>\<close> is \<open>T list\<close>, \<^verbatim>\<open>push_back\<close> appends at the end.
  \<^item> Behaviour that C++ leaves undefined, and errors raised by the libraries the code
    calls, are values of the type \<open>error\<close>; a member function that can reach one
    returns \<open>error + result\<close>.
  \<^item> The classes are declared in \<^verbatim>\<open>logger.h\<close>, which is not among the sources. The
    members are those the member functions of \<^verbatim>\<open>logger.cpp\<close> use, with the types of
    the constructor parameters that initialise them and of the values pushed into
    them.
\<close>

type_synonym uint = "32 word"
type_synonym double = real
type_synonym arma_vec = "real list"

datatype error =
    BackOfEmptyVector
      \<comment> \<open>\<^verbatim>\<open>std::vector::back()\<close> on an empty vector: undefined behaviour\<close>
  | DerefEndIterator
      \<comment> \<open>\<^verbatim>\<open>->second\<close> on the iterator \<^verbatim>\<open>std::map::end()\<close>: undefined behaviour\<close>
  | ArmaIncompatibleSize
      \<comment> \<open>Armadillo's size check of an element-wise operation\<close>
  | RError string
      \<comment> \<open>an R error with its message (\<^verbatim>\<open>Rcpp::stop\<close>, \<^verbatim>\<open>forward_exception_to_r\<close>)\<close>

text \<open>\<^verbatim>\<open>v.back()\<close>: the last element; undefined behaviour on an empty vector.\<close>

definition vector_back :: "'a list \<Rightarrow> error + 'a" where
  "vector_back v = (if v = [] then Inl BackOfEmptyVector else Inr (last v))"


subsection \<open>The collaborators: loss, base learner, data\<close>

text \<open>
  \<^verbatim>\<open>loss::Loss\<close> and \<^verbatim>\<open>blearner::Baselearner\<close> are classes of other files. The loggers
  call \<^verbatim>\<open>definedLoss\<close> of the first, \<^verbatim>\<open>getDataIdentifier\<close> and \<^verbatim>\<open>predict\<close> of the
  second; an object is the record of these member functions. \<^verbatim>\<open>data::Data*\<close> is the
  type variable \<open>'d\<close>.
\<close>

record Loss =
  definedLoss :: "arma_vec \<Rightarrow> arma_vec \<Rightarrow> arma_vec"

record 'd Baselearner =
  getDataIdentifier :: string
  predict :: "'d \<Rightarrow> arma_vec"


subsection \<open>Armadillo operations used by the loggers\<close>

text \<open>\<^verbatim>\<open>v.fill(x)\<close>: every element becomes \<open>x\<close>, the size stays.\<close>

definition arma_fill :: "arma_vec \<Rightarrow> double \<Rightarrow> arma_vec" where
  "arma_fill v x = replicate (length v) x"

text \<open>\<^verbatim>\<open>arma::accu(v)\<close>: the sum of all elements.\<close>

definition arma_accu :: "arma_vec \<Rightarrow> double" where
  "arma_accu v = sum_list v"

text \<open>
  \<^verbatim>\<open>arma::mean(v)\<close>: the sum divided by the number of elements. (On an empty vector
  the quotient is \<open>0\<close> here, where Armadillo raises an error or returns NaN; no
  theorem below depends on that value.)
\<close>

definition arma_mean :: "arma_vec \<Rightarrow> double" where
  "arma_mean v = arma_accu v / real (length v)"

text \<open>\<^verbatim>\<open>s * v\<close>: every element times the scalar.\<close>

definition arma_scale :: "double \<Rightarrow> arma_vec \<Rightarrow> arma_vec" where
  "arma_scale s v = map (\<lambda>x. s * x) v"

text \<open>
  \<^verbatim>\<open>a += b\<close>: element-wise addition in place; Armadillo checks that both sides have
  the same size and raises an error otherwise.
\<close>

definition arma_plus_eq :: "arma_vec \<Rightarrow> arma_vec \<Rightarrow> error + arma_vec" where
  "arma_plus_eq a b =
     (if length a = length b then Inr (map2 (+) a b) else Inl ArmaIncompatibleSize)"


subsection \<open>The arithmetic of \<^verbatim>\<open>double\<close> in the stop criteria\<close>

text \<open>
  The result of an operation on doubles: a finite number, an infinity, or NaN.
\<close>

datatype ieee = Finite real | PlusInf | MinusInf | NaN

text \<open>\<open>2\<close> to the power of an integer.\<close>

definition pow2 :: "int \<Rightarrow> real" where
  "pow2 e = (if 0 \<le> e then 2 ^ nat e else 1 / 2 ^ nat (- e))"

text \<open>
  The binary exponent of a positive number \<open>x\<close>, counted from \<open>e\<close>: \<open>x\<close> is halved
  while it is at least 2 (up to the exponent 1024, which is beyond the largest
  double), or doubled while it is below 1 (down to the exponent \<open>-1022\<close> of the
  smallest normal double; the subnormal numbers share this exponent).
\<close>

function exponent_up :: "int \<Rightarrow> real \<Rightarrow> int" where
  "exponent_up e x = (if 2 \<le> x \<and> e < 1024 then exponent_up (e + 1) (x / 2) else e)"
  by pat_completeness auto
termination
  by (relation "measure (\<lambda>(e, x). nat (1024 - e))") auto

function exponent_down :: "int \<Rightarrow> real \<Rightarrow> int" where
  "exponent_down e x = (if x < 1 \<and> - 1022 < e then exponent_down (e - 1) (2 * x) else e)"
  by pat_completeness auto
termination
  by (relation "measure (\<lambda>(e, x). nat (e + 1022))") auto

declare exponent_up.simps [simp del] exponent_down.simps [simp del]

definition double_exponent :: "real \<Rightarrow> int" where
  "double_exponent x = (if 1 \<le> x then exponent_up 0 x else exponent_down 0 x)"

text \<open>The nearest integer; of the two nearest ones the even one.\<close>

definition round_half_even :: "real \<Rightarrow> int" where
  "round_half_even m =
     (let f = \<lfloor>m\<rfloor>
      in if m - of_int f < 1 / 2 then f
         else if 1 / 2 < m - of_int f then f + 1
         else if even f then f else f + 1)"

text \<open>
  Rounding of an exact result to binary64: the doubles around \<open>x\<close> are the multiples
  of \<open>u = 2 ^ (e - 52)\<close>, where \<open>e\<close> is the exponent of \<open>\<bar>x\<bar>\<close> (53 bits of
  precision); the result is the nearest multiple, and an infinity when that reaches
  \<open>2 ^ 1024\<close>.
\<close>

definition round_double :: "real \<Rightarrow> ieee" where
  "round_double x =
     (if x = 0 then Finite 0
      else
        (let u = pow2 (double_exponent \<bar>x\<bar> - 52);
             y = of_int (round_half_even (\<bar>x\<bar> / u)) * u
         in if 2 ^ 1024 \<le> y then (if 0 < x then PlusInf else MinusInf)
            else Finite (if 0 < x then y else - y)))"

text \<open>A real number is (the value of) a double when rounding leaves it as it is.\<close>

definition is_double :: "real \<Rightarrow> bool" where
  "is_double x = (round_double x = Finite x)"

text \<open>
  A floating literal of the source, such as \<^verbatim>\<open>0.9\<close>, denotes the double nearest to
  the decimal number.
\<close>

definition double_literal :: "real \<Rightarrow> double" where
  "double_literal x = (case round_double x of Finite y \<Rightarrow> y | _ \<Rightarrow> 0)"

text \<open>\<^verbatim>\<open>a - b\<close> on two stored doubles.\<close>

definition double_sub :: "double \<Rightarrow> double \<Rightarrow> ieee" where
  "double_sub a b = round_double (a - b)"

text \<open>
  \<^verbatim>\<open>a / b\<close>, where \<open>a\<close> is the result of an operation and \<open>b\<close> a stored double:
  zero by zero is NaN, another number by zero is an infinity with the sign of the
  number, an infinity divided by a number keeps or changes its sign with the sign
  of the number.
\<close>

fun double_div :: "ieee \<Rightarrow> double \<Rightarrow> ieee" where
  "double_div NaN b = NaN"
| "double_div PlusInf b = (if b < 0 then MinusInf else PlusInf)"
| "double_div MinusInf b = (if b < 0 then PlusInf else MinusInf)"
| "double_div (Finite a) b =
     (if b = 0 then (if a = 0 then NaN else if 0 < a then PlusInf else MinusInf)
      else round_double (a / b))"

text \<open>\<^verbatim>\<open>a <= b\<close>: false when \<open>a\<close> is NaN.\<close>

fun double_le :: "ieee \<Rightarrow> double \<Rightarrow> bool" where
  "double_le NaN b = False"
| "double_le PlusInf b = False"
| "double_le MinusInf b = True"
| "double_le (Finite a) b = (a \<le> b)"


subsection \<open>Abstract \<^verbatim>\<open>Logger\<close> class\<close>

record Logger =
  is_a_stopper :: bool

definition getIfLoggerIsStopper :: "'a Logger_scheme \<Rightarrow> bool" where
  "getIfLoggerIsStopper L = is_a_stopper L"


subsection \<open>\<^verbatim>\<open>LoggerIteration\<close>\<close>

record LoggerIteration = Logger +
  max_iterations :: uint
  iterations :: "uint list"

text \<open>The constructor: the member \<^verbatim>\<open>iterations\<close> is default-constructed, hence empty.\<close>

definition LoggerIteration_new :: "bool \<Rightarrow> uint \<Rightarrow> LoggerIteration" where
  "LoggerIteration_new is_a_stopper0 max_iterations0 =
     \<lparr> is_a_stopper = is_a_stopper0,
       max_iterations = max_iterations0,
       iterations = [] \<rparr>"

definition LoggerIteration_logStep ::
  "LoggerIteration \<Rightarrow> uint \<Rightarrow> arma_vec \<Rightarrow> arma_vec \<Rightarrow> 'd Baselearner \<Rightarrow> double \<Rightarrow> double
     \<Rightarrow> LoggerIteration" where
  "LoggerIteration_logStep L current_iteration response prediction used_blearner
       offset learning_rate =
     L\<lparr> iterations := iterations L @ [current_iteration] \<rparr>"

definition LoggerIteration_reachedStopCriteria :: "LoggerIteration \<Rightarrow> error + bool" where
  "LoggerIteration_reachedStopCriteria L =
     (if is_a_stopper L then
        (case vector_back (iterations L) of
           Inl e \<Rightarrow> Inl e
         | Inr b \<Rightarrow> if max_iterations L \<le> b then Inr True else Inr False)
      else Inr False)"

text \<open>The logged integers, cast to \<^verbatim>\<open>double\<close>.\<close>

definition LoggerIteration_getLoggedData :: "LoggerIteration \<Rightarrow> arma_vec" where
  "LoggerIteration_getLoggedData L = map (\<lambda>i. real (unat i)) (iterations L)"

definition LoggerIteration_clearLoggerData :: "LoggerIteration \<Rightarrow> LoggerIteration" where
  "LoggerIteration_clearLoggerData L = L\<lparr> iterations := [] \<rparr>"


subsection \<open>\<^verbatim>\<open>LoggerInbagRisk\<close>\<close>

record LoggerInbagRisk = Logger +
  used_loss :: Loss
  eps_for_break :: double
  tracked_inbag_risk :: "double list"

definition LoggerInbagRisk_new :: "bool \<Rightarrow> Loss \<Rightarrow> double \<Rightarrow> LoggerInbagRisk" where
  "LoggerInbagRisk_new is_a_stopper0 used_loss0 eps_for_break0 =
     \<lparr> is_a_stopper = is_a_stopper0,
       used_loss = used_loss0,
       eps_for_break = eps_for_break0,
       tracked_inbag_risk = [] \<rparr>"

definition LoggerInbagRisk_logStep ::
  "LoggerInbagRisk \<Rightarrow> uint \<Rightarrow> arma_vec \<Rightarrow> arma_vec \<Rightarrow> 'd Baselearner \<Rightarrow> double \<Rightarrow> double
     \<Rightarrow> LoggerInbagRisk" where
  "LoggerInbagRisk_logStep L current_iteration response prediction used_blearner
       offset learning_rate =
     (let temp_risk = arma_mean (definedLoss (used_loss L) response prediction)
      in L\<lparr> tracked_inbag_risk := tracked_inbag_risk L @ [temp_risk] \<rparr>)"

text \<open>
  The two reads \<^verbatim>\<open>tracked_inbag_risk[size - 2]\<close> and \<^verbatim>\<open>tracked_inbag_risk[size - 1]\<close>
  are inside the test \<^verbatim>\<open>size > 1\<close>, so both indices are in range. The difference is
  stored in the double \<^verbatim>\<open>inbag_eps\<close>, then divided; both results are rounded.
\<close>

definition LoggerInbagRisk_reachedStopCriteria :: "LoggerInbagRisk \<Rightarrow> bool" where
  "LoggerInbagRisk_reachedStopCriteria L =
     (if is_a_stopper L then
        (if length (tracked_inbag_risk L) > 1 then
           (let inbag_eps0 = double_sub
                               (tracked_inbag_risk L ! (length (tracked_inbag_risk L) - 2))
                               (tracked_inbag_risk L ! (length (tracked_inbag_risk L) - 1));
                inbag_eps = double_div inbag_eps0
                              (tracked_inbag_risk L ! (length (tracked_inbag_risk L) - 2))
            in if double_le inbag_eps (eps_for_break L) then True else False)
         else False)
      else False)"

definition LoggerInbagRisk_getLoggedData :: "LoggerInbagRisk \<Rightarrow> arma_vec" where
  "LoggerInbagRisk_getLoggedData L = tracked_inbag_risk L"

definition LoggerInbagRisk_clearLoggerData :: "LoggerInbagRisk \<Rightarrow> LoggerInbagRisk" where
  "LoggerInbagRisk_clearLoggerData L = L\<lparr> tracked_inbag_risk := [] \<rparr>"


subsection \<open>\<^verbatim>\<open>LoggerOobRisk\<close>\<close>

text \<open>
  The constructor builds \<^verbatim>\<open>arma::vec temp (oob_response.size())\<close> and copies it into
  \<^verbatim>\<open>oob_prediction\<close>. The vector has the size of the response; the constructor does
  not fill it, and which elements it holds depends on the version of Armadillo (the
  memory as it was found, or zeros). The elements are therefore a parameter \<open>mem\<close> of
  the constructor: element \<open>i\<close> is \<open>mem i\<close>.
\<close>

definition arma_vec_of_size :: "(nat \<Rightarrow> double) \<Rightarrow> nat \<Rightarrow> arma_vec" where
  "arma_vec_of_size mem n = map mem [0..<n]"

record 'd LoggerOobRisk = Logger +
  used_loss :: Loss
  eps_for_break :: double
  oob_data :: "string \<rightharpoonup> 'd"
  oob_response :: arma_vec
  oob_prediction :: arma_vec
  tracked_oob_risk :: "double list"

definition LoggerOobRisk_new ::
  "bool \<Rightarrow> Loss \<Rightarrow> double \<Rightarrow> (string \<rightharpoonup> 'd) \<Rightarrow> arma_vec \<Rightarrow> (nat \<Rightarrow> double)
     \<Rightarrow> 'd LoggerOobRisk" where
  "LoggerOobRisk_new is_a_stopper0 used_loss0 eps_for_break0 oob_data0 oob_response0 mem =
     \<lparr> is_a_stopper = is_a_stopper0,
       used_loss = used_loss0,
       eps_for_break = eps_for_break0,
       oob_data = oob_data0,
       oob_response = oob_response0,
       oob_prediction = arma_vec_of_size mem (length oob_response0),
       tracked_oob_risk = [] \<rparr>"

text \<open>
  \<^verbatim>\<open>logStep\<close>, statement by statement. The first statement fills the prediction with
  the offset when the iteration is 1:
\<close>

definition LoggerOobRisk_fillOffset :: "'d LoggerOobRisk \<Rightarrow> uint \<Rightarrow> double \<Rightarrow> 'd LoggerOobRisk" where
  "LoggerOobRisk_fillOffset L current_iteration offset =
     (if current_iteration = 1
      then L\<lparr> oob_prediction := arma_fill (oob_prediction L) offset \<rparr>
      else L)"

text \<open>
  Then \<^verbatim>\<open>oob_data.find(id)->second\<close> is read without comparing the iterator with
  \<^verbatim>\<open>oob_data.end()\<close>: for an identifier that is not a key of the map this is undefined
  behaviour. The base learner predicts on the data found, the prediction is scaled by
  the learning rate and added to \<^verbatim>\<open>oob_prediction\<close>, and the risk
  \<^verbatim>\<open>accu(loss) / loss.size()\<close> is appended to \<^verbatim>\<open>tracked_oob_risk\<close>. (For a loss vector
  without elements this quotient is \<open>0\<close> here and NaN in the program, which a stored
  risk cannot be in this embedding; no theorem below depends on that value.)
\<close>

definition LoggerOobRisk_logStep ::
  "'d LoggerOobRisk \<Rightarrow> uint \<Rightarrow> arma_vec \<Rightarrow> arma_vec \<Rightarrow> 'd Baselearner \<Rightarrow> double \<Rightarrow> double
     \<Rightarrow> error + 'd LoggerOobRisk" where
  "LoggerOobRisk_logStep L current_iteration response prediction used_blearner
       offset learning_rate =
     (let L1 = LoggerOobRisk_fillOffset L current_iteration offset
      in case oob_data L1 (getDataIdentifier used_blearner) of
           None \<Rightarrow> Inl DerefEndIterator
         | Some oob_blearner_data \<Rightarrow>
             (let temp_oob_prediction = predict used_blearner oob_blearner_data
              in case arma_plus_eq (oob_prediction L1)
                        (arma_scale learning_rate temp_oob_prediction) of
                   Inl e \<Rightarrow> Inl e
                 | Inr p \<Rightarrow>
                     (let L2 = L1\<lparr> oob_prediction := p \<rparr>;
                          loss_vec_temp = definedLoss (used_loss L2) (oob_response L2)
                                            (oob_prediction L2);
                          temp_risk = arma_accu loss_vec_temp / real (length loss_vec_temp)
                      in Inr (L2\<lparr> tracked_oob_risk := tracked_oob_risk L2 @ [temp_risk] \<rparr>))))"

definition LoggerOobRisk_reachedStopCriteria :: "'d LoggerOobRisk \<Rightarrow> bool" where
  "LoggerOobRisk_reachedStopCriteria L =
     (if is_a_stopper L then
        (if length (tracked_oob_risk L) > 1 then
           (let oob_eps0 = double_sub
                             (tracked_oob_risk L ! (length (tracked_oob_risk L) - 2))
                             (tracked_oob_risk L ! (length (tracked_oob_risk L) - 1));
                oob_eps = double_div oob_eps0
                            (tracked_oob_risk L ! (length (tracked_oob_risk L) - 2))
            in if double_le oob_eps (eps_for_break L) then True else False)
         else False)
      else False)"

definition LoggerOobRisk_getLoggedData :: "'d LoggerOobRisk \<Rightarrow> arma_vec" where
  "LoggerOobRisk_getLoggedData L = tracked_oob_risk L"

definition LoggerOobRisk_clearLoggerData :: "'d LoggerOobRisk \<Rightarrow> 'd LoggerOobRisk" where
  "LoggerOobRisk_clearLoggerData L = L\<lparr> tracked_oob_risk := [] \<rparr>"


subsection \<open>\<^verbatim>\<open>LoggerTime\<close>\<close>

text \<open>
  A \<^verbatim>\<open>std::chrono::steady_clock::time_point\<close> is the number of ticks (nanoseconds) on
  the clock, an \<open>int\<close>. \<^verbatim>\<open>duration_cast\<close> to a coarser unit divides the number of
  ticks by the ticks of the unit and truncates towards zero.
\<close>

type_synonym time_point = int

definition trunc_div :: "int \<Rightarrow> int \<Rightarrow> int" where
  "trunc_div a b = (if (a < 0) = (b < 0) then \<bar>a\<bar> div \<bar>b\<bar> else - (\<bar>a\<bar> div \<bar>b\<bar>))"

definition duration_cast_minutes :: "int \<Rightarrow> int" where
  "duration_cast_minutes ns = trunc_div ns 60000000000"

definition duration_cast_seconds :: "int \<Rightarrow> int" where
  "duration_cast_seconds ns = trunc_div ns 1000000000"

definition duration_cast_microseconds :: "int \<Rightarrow> int" where
  "duration_cast_microseconds ns = trunc_div ns 1000"

text \<open>
  Modelled from the spec: the declaration of the members of \<^verbatim>\<open>LoggerTime\<close> is in
  \<^verbatim>\<open>logger.h\<close>, which is not among the sources. The spec gives \<^verbatim>\<open>max_time\<close> as an
  unsigned int and the logged samples as a sequence of integers; the samples are
  taken as unsigned ints too, so that \<^verbatim>\<open>current_time.back() >= max_time\<close> is the
  unsigned comparison (which it also is for samples of type \<^verbatim>\<open>int\<close>), and
  \<^verbatim>\<open>push_back\<close> of the 64-bit \<^verbatim>\<open>count()\<close> converts modulo \<open>2 ^ 32\<close>.
\<close>

record LoggerTime = Logger +
  init_time :: time_point
  current_time :: "uint list"
  max_time :: uint
  time_unit :: string

text \<open>
  The constructor. \<^verbatim>\<open>Rcpp::stop\<close> throws inside the \<^verbatim>\<open>try\<close> block, the handler passes the
  exception to \<^verbatim>\<open>forward_exception_to_r\<close>, which raises the R error with the message of
  the exception and does not return: no object is constructed.
\<close>

definition LoggerTime_new :: "bool \<Rightarrow> uint \<Rightarrow> string \<Rightarrow> error + LoggerTime" where
  "LoggerTime_new is_a_stopper0 max_time0 time_unit0 =
     (if time_unit0 \<noteq> ''minutes'' then
        (if time_unit0 \<noteq> ''seconds'' then
           (if time_unit0 \<noteq> ''microseconds'' then
              Inl (RError ''Time unit has to be one of 'microseconds', 'seconds' or 'minutes'.'')
            else Inr \<lparr> is_a_stopper = is_a_stopper0, init_time = 0, current_time = [],
                       max_time = max_time0, time_unit = time_unit0 \<rparr>)
         else Inr \<lparr> is_a_stopper = is_a_stopper0, init_time = 0, current_time = [],
                    max_time = max_time0, time_unit = time_unit0 \<rparr>)
      else Inr \<lparr> is_a_stopper = is_a_stopper0, init_time = 0, current_time = [],
                 max_time = max_time0, time_unit = time_unit0 \<rparr>)"

text \<open>
  \<^verbatim>\<open>logStep\<close> reads the clock: \<open>now0\<close> is the reading taken for \<^verbatim>\<open>init_time\<close> (used
  only when nothing has been logged), \<open>now1\<close> the reading taken for the elapsed time.
  The three tests of the unit are three separate statements, as in the source.
\<close>

definition LoggerTime_logStep ::
  "LoggerTime \<Rightarrow> time_point \<Rightarrow> time_point \<Rightarrow> uint \<Rightarrow> arma_vec \<Rightarrow> arma_vec \<Rightarrow> 'd Baselearner
     \<Rightarrow> double \<Rightarrow> double \<Rightarrow> LoggerTime" where
  "LoggerTime_logStep L now0 now1 current_iteration response prediction used_blearner
       offset learning_rate =
     (let L1 = (if length (current_time L) = 0 then L\<lparr> init_time := now0 \<rparr> else L);
          L2 = (if time_unit L1 = ''minutes''
                then L1\<lparr> current_time := current_time L1 @
                          [word_of_int (duration_cast_minutes (now1 - init_time L1))] \<rparr>
                else L1);
          L3 = (if time_unit L2 = ''seconds''
                then L2\<lparr> current_time := current_time L2 @
                          [word_of_int (duration_cast_seconds (now1 - init_time L2))] \<rparr>
                else L2);
          L4 = (if time_unit L3 = ''microseconds''
                then L3\<lparr> current_time := current_time L3 @
                          [word_of_int (duration_cast_microseconds (now1 - init_time L3))] \<rparr>
                else L3)
      in L4)"

definition LoggerTime_reachedStopCriteria :: "LoggerTime \<Rightarrow> error + bool" where
  "LoggerTime_reachedStopCriteria L =
     (if is_a_stopper L then
        (case vector_back (current_time L) of
           Inl e \<Rightarrow> Inl e
         | Inr b \<Rightarrow> if b \<ge> max_time L then Inr True else Inr False)
      else Inr False)"

definition LoggerTime_getLoggedData :: "LoggerTime \<Rightarrow> arma_vec" where
  "LoggerTime_getLoggedData L = map (\<lambda>t. real (unat t)) (current_time L)"

definition LoggerTime_clearLoggerData :: "LoggerTime \<Rightarrow> LoggerTime" where
  "LoggerTime_clearLoggerData L = L\<lparr> current_time := [] \<rparr>"



subsection \<open>The interface: dispatch over the four classes\<close>

text \<open>
  A \<^verbatim>\<open>Logger*\<close> points to an object of one of the four classes; a call of a virtual
  member function runs the function of that class.
\<close>

datatype 'd logger =
    Iteration LoggerIteration
  | InbagRisk LoggerInbagRisk
  | OobRisk "'d LoggerOobRisk"
  | Time LoggerTime

text \<open>
  What one call of \<^verbatim>\<open>logStep\<close> receives: its six arguments, and the two readings of the
  steady clock that \<^verbatim>\<open>LoggerTime::logStep\<close> takes.
\<close>

record 'd round_context =
  current_iteration :: uint
  response :: arma_vec
  prediction :: arma_vec
  used_blearner :: "'d Baselearner"
  offset :: double
  learning_rate :: double
  now0 :: time_point
  now1 :: time_point

fun logStep :: "'d logger \<Rightarrow> 'd round_context \<Rightarrow> error + 'd logger" where
  "logStep (Iteration L) c =
     Inr (Iteration (LoggerIteration_logStep L (current_iteration c) (response c)
            (prediction c) (used_blearner c) (offset c) (learning_rate c)))"
| "logStep (InbagRisk L) c =
     Inr (InbagRisk (LoggerInbagRisk_logStep L (current_iteration c) (response c)
            (prediction c) (used_blearner c) (offset c) (learning_rate c)))"
| "logStep (OobRisk L) c =
     (case LoggerOobRisk_logStep L (current_iteration c) (response c)
             (prediction c) (used_blearner c) (offset c) (learning_rate c) of
        Inl e \<Rightarrow> Inl e
      | Inr L' \<Rightarrow> Inr (OobRisk L'))"
| "logStep (Time L) c =
     Inr (Time (LoggerTime_logStep L (now0 c) (now1 c) (current_iteration c) (response c)
            (prediction c) (used_blearner c) (offset c) (learning_rate c)))"

fun reachedStopCriteria :: "'d logger \<Rightarrow> error + bool" where
  "reachedStopCriteria (Iteration L) = LoggerIteration_reachedStopCriteria L"
| "reachedStopCriteria (InbagRisk L) = Inr (LoggerInbagRisk_reachedStopCriteria L)"
| "reachedStopCriteria (OobRisk L) = Inr (LoggerOobRisk_reachedStopCriteria L)"
| "reachedStopCriteria (Time L) = LoggerTime_reachedStopCriteria L"

fun getLoggedData :: "'d logger \<Rightarrow> arma_vec" where
  "getLoggedData (Iteration L) = LoggerIteration_getLoggedData L"
| "getLoggedData (InbagRisk L) = LoggerInbagRisk_getLoggedData L"
| "getLoggedData (OobRisk L) = LoggerOobRisk_getLoggedData L"
| "getLoggedData (Time L) = LoggerTime_getLoggedData L"

fun clearLoggerData :: "'d logger \<Rightarrow> 'd logger" where
  "clearLoggerData (Iteration L) = Iteration (LoggerIteration_clearLoggerData L)"
| "clearLoggerData (InbagRisk L) = InbagRisk (LoggerInbagRisk_clearLoggerData L)"
| "clearLoggerData (OobRisk L) = OobRisk (LoggerOobRisk_clearLoggerData L)"
| "clearLoggerData (Time L) = Time (LoggerTime_clearLoggerData L)"

text \<open>
  The training loop calls \<^verbatim>\<open>logStep\<close> once per round; a call that fails ends the run.
\<close>

fun logSteps :: "'d logger \<Rightarrow> 'd round_context list \<Rightarrow> error + 'd logger" where
  "logSteps lg [] = Inr lg"
| "logSteps lg (c # cs) =
     (case logStep lg c of
        Inl e \<Rightarrow> Inl e
      | Inr lg' \<Rightarrow> logSteps lg' cs)"

text \<open>
  A \<^verbatim>\<open>LoggerTime\<close> that its constructor has built holds one of the three units; the
  other classes have no condition of this kind.
\<close>

definition time_unit_known :: "LoggerTime \<Rightarrow> bool" where
  "time_unit_known L =
     (time_unit L = ''minutes'' \<or> time_unit L = ''seconds'' \<or> time_unit L = ''microseconds'')"

fun constructed :: "'d logger \<Rightarrow> bool" where
  "constructed (Time L) = time_unit_known L"
| "constructed _ = True"

fun is_OobRisk :: "'d logger \<Rightarrow> bool" where
  "is_OobRisk (OobRisk L) = True"
| "is_OobRisk _ = False"

text \<open>
  The training loop asks for the stop criteria after the calls of \<^verbatim>\<open>logStep\<close>.
\<close>

definition stop_after :: "'d logger \<Rightarrow> 'd round_context list \<Rightarrow> error + bool" where
  "stop_after lg cs =
     (case logSteps lg cs of
        Inl e \<Rightarrow> Inl e
      | Inr lg' \<Rightarrow> reachedStopCriteria lg')"

text \<open>
  The elapsed time in whole units of the configured granularity, as the spec words it:
  the cast of the duration that belongs to the unit.
\<close>

definition elapsed_in_unit :: "string \<Rightarrow> int \<Rightarrow> int" where
  "elapsed_in_unit u ns =
     (if u = ''minutes'' then duration_cast_minutes ns
      else if u = ''seconds'' then duration_cast_seconds ns
      else duration_cast_microseconds ns)"


text \<open>
  The length of a unit in ticks of the clock (nanoseconds): a minute, a second, a
  microsecond.
\<close>

definition ticks_per_unit :: "string \<Rightarrow> int" where
  "ticks_per_unit u =
     (if u = ''minutes'' then 60000000000
      else if u = ''seconds'' then 1000000000
      else 1000)"


text \<open>
  A round that \<^verbatim>\<open>LoggerOobRisk::logStep\<close> can complete: the identifier of the selected
  base learner is a key of \<^verbatim>\<open>oob_data\<close>, and the base learner predicts one value for
  each held-out observation.
\<close>

definition oob_round_ok :: "'d LoggerOobRisk \<Rightarrow> 'd round_context \<Rightarrow> bool" where
  "oob_round_ok L c =
     (case oob_data L (getDataIdentifier (used_blearner c)) of
        None \<Rightarrow> False
      | Some d \<Rightarrow> length (predict (used_blearner c) d) = length (oob_response L))"


section \<open>Properties\<close>

subsection \<open>\<^verbatim>\<open>LoggerIteration\<close>: the stop criteria\<close>

text \<open>
  Claim C7. A \<^verbatim>\<open>LoggerIteration\<close> that is a stopper and has logged at least one round
  reaches its stop criteria exactly when \<^verbatim>\<open>max_iterations\<close> is at most the round
  logged last: this holds right after a call of \<^verbatim>\<open>logStep\<close> (first conjunct) and in any
  state whose vector of iterations is not empty (second conjunct). With
  \<^verbatim>\<open>max_iterations = 5\<close> and the rounds 1, 2, 3, 4, 5 logged in this order on a new
  logger, the criteria is not reached after the rounds 1 to 4 and is reached after
  round 5 (third conjunct; \<open>c\<close> is any round context).
\<close>

theorem LoggerIteration_stops_at_max_iterations:
  assumes "is_a_stopper L"
  shows "LoggerIteration_reachedStopCriteria
           (LoggerIteration_logStep L i resp pred bl off lr) = Inr (max_iterations L \<le> i)
       \<and> (iterations L \<noteq> [] \<longrightarrow>
            LoggerIteration_reachedStopCriteria L
              = Inr (max_iterations L \<le> last (iterations L)))
       \<and> map (\<lambda>n. stop_after (Iteration (LoggerIteration_new True 5))
                   (map (\<lambda>k. c\<lparr> current_iteration := k \<rparr>) (take n [1, 2, 3, 4, 5])))
             [1, 2, 3, 4, 5]
           = [Inr False, Inr False, Inr False, Inr False, Inr True]"
proof (intro conjI)
  show "LoggerIteration_reachedStopCriteria
           (LoggerIteration_logStep L i resp pred bl off lr) = Inr (max_iterations L \<le> i)"
    using assms
    by (simp add: LoggerIteration_reachedStopCriteria_def LoggerIteration_logStep_def
        vector_back_def)
  show "iterations L \<noteq> [] \<longrightarrow>
            LoggerIteration_reachedStopCriteria L
              = Inr (max_iterations L \<le> last (iterations L))"
    using assms by (simp add: LoggerIteration_reachedStopCriteria_def vector_back_def)
  show "map (\<lambda>n. stop_after (Iteration (LoggerIteration_new True 5))
                   (map (\<lambda>k. c\<lparr> current_iteration := k \<rparr>) (take n [1, 2, 3, 4, 5])))
             [1, 2, 3, 4, 5]
           = [Inr False, Inr False, Inr False, Inr False, Inr True]"
    by (simp add: stop_after_def LoggerIteration_new_def LoggerIteration_logStep_def
        LoggerIteration_reachedStopCriteria_def vector_back_def word_le_nat_alt)
qed

theorem LoggerIteration_stops_at_max_iterations_witness:
  "is_a_stopper (LoggerIteration_new True 5)
   \<and> LoggerIteration_reachedStopCriteria
        (LoggerIteration_logStep (LoggerIteration_new True 5) 4 [] []
           \<lparr> getDataIdentifier = ''x'', predict = (\<lambda>d::unit. []) \<rparr> 0 0) = Inr False
   \<and> LoggerIteration_reachedStopCriteria
        (LoggerIteration_logStep (LoggerIteration_new True 5) 5 [] []
           \<lparr> getDataIdentifier = ''x'', predict = (\<lambda>d::unit. []) \<rparr> 0 0) = Inr True"
proof -
  have h: "is_a_stopper (LoggerIteration_new True 5)"
    by (simp add: LoggerIteration_new_def)
  have m: "max_iterations (LoggerIteration_new True 5) = 5"
    by (simp add: LoggerIteration_new_def)
  note t = LoggerIteration_stops_at_max_iterations [OF h, THEN conjunct1]
  show ?thesis
    using h by (simp add: t m)
qed

subsection \<open>The arithmetic of \<^verbatim>\<open>double\<close>: rounding\<close>

text \<open>
  The rounded integer is at most one half away, and the rounded double is a multiple
  of the unit \<open>u\<close> of its binade at most half a unit away from the exact number.
\<close>

lemma round_half_even_near: "\<bar>of_int (round_half_even m) - m\<bar> \<le> 1 / 2"
  unfolding round_half_even_def Let_def by (auto split: if_splits)

lemma pow2_pos: "0 < pow2 e"
  by (simp add: pow2_def)

lemma round_double_near:
  assumes "round_double x = Finite y"
  shows "\<bar>y - x\<bar> \<le> pow2 (double_exponent \<bar>x\<bar> - 52) / 2
       \<and> (\<exists>k. y = of_int k * pow2 (double_exponent \<bar>x\<bar> - 52))"
proof (cases "x = 0")
  case True
  with assms show ?thesis
    using pow2_pos [of "double_exponent \<bar>x\<bar> - 52"]
    by (auto simp add: round_double_def intro: exI [of _ 0])
next
  case False
  define u where "u = pow2 (double_exponent \<bar>x\<bar> - 52)"
  define n where "n = round_half_even (\<bar>x\<bar> / u)"
  have u: "0 < u" by (simp add: u_def pow2_pos)
  have "\<bar>of_int n - \<bar>x\<bar> / u\<bar> \<le> 1 / 2"
    unfolding n_def by (rule round_half_even_near)
  then have "\<bar>of_int n - \<bar>x\<bar> / u\<bar> * u \<le> (1 / 2) * u"
    using u by (simp add: mult_right_mono)
  moreover have "\<bar>of_int n - \<bar>x\<bar> / u\<bar> * u = \<bar>(of_int n - \<bar>x\<bar> / u) * u\<bar>"
    using u by (simp add: abs_mult)
  moreover have "(of_int n - \<bar>x\<bar> / u) * u = of_int n * u - \<bar>x\<bar>"
    using u by (simp add: field_simps)
  ultimately have near: "\<bar>of_int n * u - \<bar>x\<bar>\<bar> \<le> u / 2"
    by simp
  from assms False have y: "y = (if 0 < x then of_int n * u else - (of_int n * u))"
    by (simp add: round_double_def Let_def u_def n_def split: if_splits)
  show ?thesis
  proof (cases "0 < x")
    case True
    with y near show ?thesis
      unfolding u_def [symmetric] by auto
  next
    case neg: False
    with False have "x < 0" by simp
    with y near have "\<bar>y - x\<bar> \<le> u / 2"
      by (simp add: abs_if split: if_splits)
    moreover from y neg have "y = of_int (- n) * u"
      by simp
    ultimately show ?thesis
      unfolding u_def [symmetric] by blast
  qed
qed

text \<open>
  A number halfway between two doubles goes to the one whose last bit is zero: above
  \<open>2 ^ 53\<close> the doubles are the even integers.
\<close>

lemma round_double_ties:
  "round_double (9007199254740992 + 1) = Finite 9007199254740992"
  "round_double (9007199254740992 + 3) = Finite (9007199254740992 + 4)"
  "round_double (- (9007199254740992 + 3)) = Finite (- (9007199254740992 + 4))"
  "round_double (1 / 3) = Finite (6004799503160661 / 18014398509481984)"
  "round_double (2 / 3) = Finite (6004799503160661 / 9007199254740992)"
  by (simp_all add: round_double_def double_exponent_def round_half_even_def pow2_def
      Let_def exponent_up.simps exponent_down.simps)

text \<open>
  The difference of two doubles is rounded before it is divided: the difference of
  \<open>3 * 2 ^ 52\<close> and \<open>-1.25\<close> is stored as \<open>3 * 2 ^ 52 + 2\<close>, and the quotient by
  \<open>3 * 2 ^ 52\<close> is then the double above 1, while the quotient of the numbers rounds
  to 1.
\<close>

lemma double_sub_rounds:
  "double_sub 13510798882111488 (- (5 / 4)) = Finite 13510798882111490"
  "double_div (double_sub 13510798882111488 (- (5 / 4))) 13510798882111488
     = Finite (4503599627370497 / 4503599627370496)"
  "round_double ((13510798882111488 - (- (5 / 4))) / 13510798882111488) = Finite 1"
  by (simp_all add: double_sub_def round_double_def double_exponent_def round_half_even_def
      pow2_def Let_def exponent_up.simps exponent_down.simps)

text \<open>The doubles that the literals \<^verbatim>\<open>1.0\<close>, \<^verbatim>\<open>0.9\<close>, \<^verbatim>\<open>0.87\<close> and \<^verbatim>\<open>0.05\<close> denote.\<close>

lemma double_literals:
  "double_literal 1.0 = 1"
  "double_literal 0.9 = 8106479329266893 / 9007199254740992"
  "double_literal 0.87 = 7836263351624663 / 9007199254740992"
  "double_literal 0.05 = 3602879701896397 / 72057594037927936"
  by (simp_all add: double_literal_def round_double_def double_exponent_def
      round_half_even_def pow2_def Let_def exponent_up.simps exponent_down.simps)


subsection \<open>\<^verbatim>\<open>LoggerInbagRisk\<close>: the stop criteria\<close>

text \<open>
  Claim C1. For a \<^verbatim>\<open>LoggerInbagRisk\<close> that is a stopper, \<^verbatim>\<open>reachedStopCriteria\<close> is false
  while fewer than two risks are logged, and with \<open>n \<ge> 2\<close> logged risks it is true
  exactly when \<open>(risk[n-2] - risk[n-1]) / risk[n-2] \<le> eps_for_break\<close>, computed as the
  program computes it: the difference and the quotient are those of doubles, and the
  comparison is false for NaN (first conjunct); \<open>risk[n-1]\<close> is the entry that the last
  call of \<^verbatim>\<open>logStep\<close> appended, the mean of the loss (second conjunct). With
  \<open>eps_for_break = 0.05\<close> and the risks 1.0, 0.9, 0.87 (the absolute loss of the
  predictions 1.0, 0.9, 0.87 for the response 0; the numbers are the doubles that
  the literals denote) the logger does not stop after the first and the second entry
  and stops after the third (third conjunct; \<open>c\<close> is any round context).

  What the quotient of doubles means where it differs from the quotient of numbers:
  when the risk before the last is zero, the logger stops exactly when the last risk
  is positive (the quotient is then minus infinity; it is NaN for two zero risks and
  plus infinity for a negative last risk) (fourth conjunct); and the quotient is
  rounded, so that the risks 3 and 2 stop the logger whose \<open>eps_for_break\<close> is the
  double nearest to one third, which is below one third (fifth conjunct).
\<close>

theorem LoggerInbagRisk_stops_on_relative_improvement:
  assumes "is_a_stopper L"
  shows "LoggerInbagRisk_reachedStopCriteria L
           = (2 \<le> length (tracked_inbag_risk L)
              \<and> double_le
                  (double_div
                     (double_sub
                        (tracked_inbag_risk L ! (length (tracked_inbag_risk L) - 2))
                        (tracked_inbag_risk L ! (length (tracked_inbag_risk L) - 1)))
                     (tracked_inbag_risk L ! (length (tracked_inbag_risk L) - 2)))
                  (LoggerInbagRisk.eps_for_break L))
       \<and> (let L' = LoggerInbagRisk_logStep L i resp pred bl off lr
          in tracked_inbag_risk L' ! (length (tracked_inbag_risk L') - 1)
               = arma_mean (definedLoss (LoggerInbagRisk.used_loss L) resp pred))
       \<and> map (\<lambda>n. stop_after
                    (InbagRisk (LoggerInbagRisk_new True
                       \<lparr> definedLoss = (\<lambda>y f. map2 (\<lambda>a b. \<bar>a - b\<bar>) y f) \<rparr>
                       (double_literal 0.05)))
                    (map (\<lambda>p. c\<lparr> response := [0], prediction := [p] \<rparr>)
                       (take n [double_literal 1.0, double_literal 0.9,
                                double_literal 0.87])))
             [1, 2, 3]
           = [Inr False, Inr False, Inr True]
       \<and> (is_double b \<longrightarrow>
            LoggerInbagRisk_reachedStopCriteria
              (L\<lparr> tracked_inbag_risk := rs @ [0, b] \<rparr>) = (0 < b))
       \<and> LoggerInbagRisk_reachedStopCriteria
            (L\<lparr> LoggerInbagRisk.eps_for_break := 6004799503160661 / 18014398509481984,
                tracked_inbag_risk := rs @ [3, 2] \<rparr>)
       \<and> 6004799503160661 / 18014398509481984 < (3 - 2) / (3 :: real)"
proof (intro conjI)
  show "LoggerInbagRisk_reachedStopCriteria L
           = (2 \<le> length (tracked_inbag_risk L)
              \<and> double_le
                  (double_div
                     (double_sub
                        (tracked_inbag_risk L ! (length (tracked_inbag_risk L) - 2))
                        (tracked_inbag_risk L ! (length (tracked_inbag_risk L) - 1)))
                     (tracked_inbag_risk L ! (length (tracked_inbag_risk L) - 2)))
                  (LoggerInbagRisk.eps_for_break L))"
    using assms by (auto simp add: LoggerInbagRisk_reachedStopCriteria_def Let_def)
  show "let L' = LoggerInbagRisk_logStep L i resp pred bl off lr
          in tracked_inbag_risk L' ! (length (tracked_inbag_risk L') - 1)
               = arma_mean (definedLoss (LoggerInbagRisk.used_loss L) resp pred)"
    by (simp add: LoggerInbagRisk_logStep_def Let_def)
  show "map (\<lambda>n. stop_after
                    (InbagRisk (LoggerInbagRisk_new True
                       \<lparr> definedLoss = (\<lambda>y f. map2 (\<lambda>a b. \<bar>a - b\<bar>) y f) \<rparr>
                       (double_literal 0.05)))
                    (map (\<lambda>p. c\<lparr> response := [0], prediction := [p] \<rparr>)
                       (take n [double_literal 1.0, double_literal 0.9,
                                double_literal 0.87])))
             [1, 2, 3]
           = [Inr False, Inr False, Inr True]"
    unfolding double_literals
    by (simp add: stop_after_def LoggerInbagRisk_new_def LoggerInbagRisk_logStep_def
        LoggerInbagRisk_reachedStopCriteria_def arma_mean_def arma_accu_def Let_def
        double_sub_def round_double_def double_exponent_def round_half_even_def pow2_def
        exponent_up.simps exponent_down.simps)
  show "is_double b \<longrightarrow>
            LoggerInbagRisk_reachedStopCriteria
              (L\<lparr> tracked_inbag_risk := rs @ [0, b] \<rparr>) = (0 < b)"
  proof
    assume d: "is_double b"
    have m: "round_double (- b) = Finite (- b)"
      using d by (auto simp add: is_double_def round_double_def Let_def split: if_splits)
    show "LoggerInbagRisk_reachedStopCriteria
              (L\<lparr> tracked_inbag_risk := rs @ [0, b] \<rparr>) = (0 < b)"
      using assms
      by (simp add: LoggerInbagRisk_reachedStopCriteria_def Let_def nth_append
          double_sub_def m)
  qed
  show "LoggerInbagRisk_reachedStopCriteria
            (L\<lparr> LoggerInbagRisk.eps_for_break := 6004799503160661 / 18014398509481984,
                tracked_inbag_risk := rs @ [3, 2] \<rparr>)"
    using assms
    by (simp add: LoggerInbagRisk_reachedStopCriteria_def Let_def nth_append
        double_sub_def round_double_def double_exponent_def round_half_even_def pow2_def
        exponent_up.simps exponent_down.simps)
  show "6004799503160661 / 18014398509481984 < (3 - 2) / (3 :: real)"
    by simp
qed

theorem LoggerInbagRisk_stops_on_relative_improvement_witness:
  "is_a_stopper
     ((LoggerInbagRisk_new True
        \<lparr> definedLoss = (\<lambda>y f. map2 (\<lambda>a b. \<bar>a - b\<bar>) y f) \<rparr> (1 / 4))
          \<lparr> tracked_inbag_risk := [2, 8, 6] \<rparr>)
   \<and> LoggerInbagRisk_reachedStopCriteria
     ((LoggerInbagRisk_new True
        \<lparr> definedLoss = (\<lambda>y f. map2 (\<lambda>a b. \<bar>a - b\<bar>) y f) \<rparr> (1 / 4))
          \<lparr> tracked_inbag_risk := [2, 8, 6] \<rparr>)
   \<and> double_div (double_sub 8 6) 8 = Finite (1 / 4)
   \<and> is_double (1 / 4)
   \<and> LoggerInbagRisk_reachedStopCriteria
       ((LoggerInbagRisk_new True
          \<lparr> definedLoss = (\<lambda>y f. map2 (\<lambda>a b. \<bar>a - b\<bar>) y f) \<rparr> (1 / 4))
            \<lparr> tracked_inbag_risk := [2, 8, 6] \<rparr>
            \<lparr> tracked_inbag_risk := [7] @ [0, 1 / 4] \<rparr>)
   \<and> \<not> LoggerInbagRisk_reachedStopCriteria
       ((LoggerInbagRisk_new True
          \<lparr> definedLoss = (\<lambda>y f. map2 (\<lambda>a b. \<bar>a - b\<bar>) y f) \<rparr> (1 / 4))
            \<lparr> tracked_inbag_risk := [2, 8, 6] \<rparr>
            \<lparr> tracked_inbag_risk := [7] @ [0, 0] \<rparr>)"
proof -
  let ?L = "(LoggerInbagRisk_new True
        \<lparr> definedLoss = (\<lambda>y f. map2 (\<lambda>a b. \<bar>a - b\<bar>) y f) \<rparr> (1 / 4))
          \<lparr> tracked_inbag_risk := [2, 8, 6] \<rparr>"
  have h: "is_a_stopper ?L"
    by (simp add: LoggerInbagRisk_new_def)
  have q: "double_div (double_sub 8 6) 8 = Finite (1 / 4)"
    by (simp add: double_sub_def round_double_def double_exponent_def round_half_even_def
        pow2_def Let_def exponent_up.simps exponent_down.simps)
  have d4: "is_double (1 / 4)"
    by (simp add: is_double_def round_double_def double_exponent_def round_half_even_def
        pow2_def Let_def exponent_up.simps exponent_down.simps)
  have d0: "is_double 0"
    by (simp add: is_double_def round_double_def)
  note t = LoggerInbagRisk_stops_on_relative_improvement [OF h]
  have a: "LoggerInbagRisk_reachedStopCriteria ?L"
    unfolding t [THEN conjunct1] by (simp add: LoggerInbagRisk_new_def q)
  have z1: "LoggerInbagRisk_reachedStopCriteria
              (?L\<lparr> tracked_inbag_risk := [7] @ [0, 1 / 4] \<rparr>) = (0 < (1 / 4 :: real))"
    using t [THEN conjunct2, THEN conjunct2, THEN conjunct2, THEN conjunct1,
        of "1 / 4" "[7]"] d4 by blast
  have z0: "LoggerInbagRisk_reachedStopCriteria
              (?L\<lparr> tracked_inbag_risk := [7] @ [0, 0] \<rparr>) = (0 < (0 :: real))"
    using t [THEN conjunct2, THEN conjunct2, THEN conjunct2, THEN conjunct1,
        of 0 "[7]"] d0 by blast
  from h a q d4 z1 z0 show ?thesis
    by simp
qed


text \<open>
  The stop criteria of \<^verbatim>\<open>LoggerOobRisk\<close> is the same test on \<^verbatim>\<open>tracked_oob_risk\<close>.
\<close>

lemma LoggerOobRisk_stops_on_relative_improvement:
  assumes "is_a_stopper L"
  shows "LoggerOobRisk_reachedStopCriteria L
           = (2 \<le> length (tracked_oob_risk L)
              \<and> double_le
                  (double_div
                     (double_sub
                        (tracked_oob_risk L ! (length (tracked_oob_risk L) - 2))
                        (tracked_oob_risk L ! (length (tracked_oob_risk L) - 1)))
                     (tracked_oob_risk L ! (length (tracked_oob_risk L) - 2)))
                  (eps_for_break L))"
  using assms by (auto simp add: LoggerOobRisk_reachedStopCriteria_def Let_def)


subsection \<open>\<^verbatim>\<open>LoggerTime\<close>: the stop criteria\<close>

text \<open>
  With one of the three units exactly one of the three tests of \<^verbatim>\<open>logStep\<close> succeeds:
  the call anchors \<^verbatim>\<open>init_time\<close> when nothing is logged yet and appends one sample.
\<close>

lemma LoggerTime_logStep_known:
  assumes "time_unit_known L"
  shows "LoggerTime_logStep L n0 n1 i resp pred bl off lr
       = L\<lparr> init_time := (if current_time L = [] then n0 else init_time L),
             current_time := current_time L @
               [word_of_int (elapsed_in_unit (time_unit L)
                  (n1 - (if current_time L = [] then n0 else init_time L)))] \<rparr>"
  using assms
  by (auto simp add: LoggerTime_logStep_def time_unit_known_def elapsed_in_unit_def Let_def)

text \<open>
  The cast of a duration that is not negative is the quotient of the integer division
  of the ticks by the length of the unit: the number of whole units.
\<close>

lemma elapsed_in_unit_div:
  assumes "0 \<le> el"
  shows "elapsed_in_unit u el = el div ticks_per_unit u"
  using assms
  by (simp add: elapsed_in_unit_def ticks_per_unit_def duration_cast_minutes_def
      duration_cast_seconds_def duration_cast_microseconds_def trunc_div_def)

lemma elapsed_in_unit_negative:
  assumes "el < 0"
  shows "elapsed_in_unit u el = - ((- el) div ticks_per_unit u)"
  using assms
  by (simp add: elapsed_in_unit_def ticks_per_unit_def duration_cast_minutes_def
      duration_cast_seconds_def duration_cast_microseconds_def trunc_div_def)

text \<open>
  Claim C8. For a \<^verbatim>\<open>LoggerTime\<close> that is a stopper (built with one of the three units),
  after a call of \<^verbatim>\<open>logStep\<close> the stop criteria is reached exactly when \<^verbatim>\<open>max_time\<close> is
  at most the sample logged last (first conjunct). The sample is the time elapsed
  since \<^verbatim>\<open>init_time\<close> (the reading \<open>n0\<close> of this call when nothing was logged, the
  stored one otherwise) in whole units: the elapsed nanoseconds divided by the 60
  000 000 000, 1 000 000 000 or 1000 nanoseconds of the unit, the remainder dropped,
  stored as an unsigned int (second conjunct, and third for a clock that ran
  backwards). So, while fewer than \<open>2 ^ 32\<close> units have elapsed, the criteria is reached
  exactly when the number of whole units elapsed is at least \<^verbatim>\<open>max_time\<close>; from \<open>2 ^ 32\<close>
  units on, the sample and the test are those of the number of units modulo \<open>2 ^ 32\<close>
  (fourth conjunct, of which the last conjunct is an instance: after 5 000 000 000
  microseconds the sample is 705 032 704 and a \<^verbatim>\<open>max_time\<close> of 1 000 000 000 is not
  reached). The same equivalence holds in any state with at least one sample (fifth
  conjunct). With \<^verbatim>\<open>max_time = 0\<close> the criteria is reached after every call of
  \<^verbatim>\<open>logStep\<close>, hence after the first one (sixth conjunct), as for the logger built by
  \<^verbatim>\<open>LoggerTime(true, 0, "seconds")\<close> after one call with any round context \<open>c\<close> (seventh
  conjunct).
\<close>

theorem LoggerTime_stops_at_max_time:
  assumes "is_a_stopper L" and "time_unit_known L"
  shows "(let L' = LoggerTime_logStep L n0 n1 i resp pred bl off lr
          in LoggerTime_reachedStopCriteria L' = Inr (max_time L \<le> last (current_time L')))
       \<and> (let L' = LoggerTime_logStep L n0 n1 i resp pred bl off lr;
              el = n1 - (if current_time L = [] then n0 else init_time L)
          in 0 \<le> el \<longrightarrow>
               last (current_time L') = word_of_int (el div ticks_per_unit (time_unit L)))
       \<and> (let L' = LoggerTime_logStep L n0 n1 i resp pred bl off lr;
              el = n1 - (if current_time L = [] then n0 else init_time L)
          in el < 0 \<longrightarrow>
               last (current_time L')
                 = word_of_int (- ((- el) div ticks_per_unit (time_unit L))))
       \<and> (let L' = LoggerTime_logStep L n0 n1 i resp pred bl off lr;
              el = n1 - (if current_time L = [] then n0 else init_time L)
          in 0 \<le> el \<longrightarrow>
               LoggerTime_reachedStopCriteria L'
                 = Inr (uint (max_time L) \<le> (el div ticks_per_unit (time_unit L)) mod 2 ^ 32)
             \<and> (el div ticks_per_unit (time_unit L) < 2 ^ 32 \<longrightarrow>
                  LoggerTime_reachedStopCriteria L'
                    = Inr (uint (max_time L) \<le> el div ticks_per_unit (time_unit L))))
       \<and> (current_time L \<noteq> [] \<longrightarrow>
            LoggerTime_reachedStopCriteria L = Inr (max_time L \<le> last (current_time L)))
       \<and> (max_time L = 0 \<longrightarrow>
            LoggerTime_reachedStopCriteria (LoggerTime_logStep L n0 n1 i resp pred bl off lr)
              = Inr True)
       \<and> (\<exists>T. LoggerTime_new True 0 ''seconds'' = Inr T
                \<and> stop_after (Time T) [c] = Inr True)
       \<and> (\<exists>T. LoggerTime_new True 1000000000 ''microseconds'' = Inr T
                \<and> current_time (LoggerTime_logStep T 0 5000000000000 i resp pred bl off lr)
                    = [705032704]
                \<and> LoggerTime_reachedStopCriteria
                     (LoggerTime_logStep T 0 5000000000000 i resp pred bl off lr)
                    = Inr False)"
proof (intro conjI)
  note step = LoggerTime_logStep_known [OF assms(2)]
  define el where "el = n1 - (if current_time L = [] then n0 else init_time L)"
  define q where "q = el div ticks_per_unit (time_unit L)"
  have last: "last (current_time (LoggerTime_logStep L n0 n1 i resp pred bl off lr))
            = word_of_int (elapsed_in_unit (time_unit L) el)"
    by (simp add: step el_def)
  have stop: "LoggerTime_reachedStopCriteria (LoggerTime_logStep L n0 n1 i resp pred bl off lr)
            = Inr (max_time L
                 \<le> last (current_time (LoggerTime_logStep L n0 n1 i resp pred bl off lr)))"
    using assms(1)
    by (simp add: step LoggerTime_reachedStopCriteria_def vector_back_def)
  show "let L' = LoggerTime_logStep L n0 n1 i resp pred bl off lr
          in LoggerTime_reachedStopCriteria L' = Inr (max_time L \<le> last (current_time L'))"
    using stop by (simp add: Let_def)
  show "let L' = LoggerTime_logStep L n0 n1 i resp pred bl off lr;
              el = n1 - (if current_time L = [] then n0 else init_time L)
          in 0 \<le> el \<longrightarrow>
               last (current_time L') = word_of_int (el div ticks_per_unit (time_unit L))"
    unfolding Let_def el_def [symmetric] last
    by (simp add: elapsed_in_unit_div)
  show "let L' = LoggerTime_logStep L n0 n1 i resp pred bl off lr;
              el = n1 - (if current_time L = [] then n0 else init_time L)
          in el < 0 \<longrightarrow>
               last (current_time L')
                 = word_of_int (- ((- el) div ticks_per_unit (time_unit L)))"
    unfolding Let_def el_def [symmetric] last
    by (simp add: elapsed_in_unit_negative)
  have w: "uint (word_of_int q :: uint) = q mod 2 ^ 32"
    by (simp add: uint_word_of_int_eq take_bit_eq_mod)
  have general: "0 \<le> el \<Longrightarrow>
      LoggerTime_reachedStopCriteria (LoggerTime_logStep L n0 n1 i resp pred bl off lr)
        = Inr (uint (max_time L) \<le> q mod 2 ^ 32)"
    unfolding stop last by (simp add: elapsed_in_unit_div q_def [symmetric] word_le_def w)
  have qpos: "0 \<le> el \<Longrightarrow> 0 \<le> q"
    unfolding q_def by (simp add: ticks_per_unit_def pos_imp_zdiv_nonneg_iff)
  have small: "0 \<le> el \<Longrightarrow> q < 2 ^ 32 \<Longrightarrow>
      LoggerTime_reachedStopCriteria (LoggerTime_logStep L n0 n1 i resp pred bl off lr)
        = Inr (uint (max_time L) \<le> q)"
    using general qpos by simp
  show "let L' = LoggerTime_logStep L n0 n1 i resp pred bl off lr;
              el = n1 - (if current_time L = [] then n0 else init_time L)
          in 0 \<le> el \<longrightarrow>
               LoggerTime_reachedStopCriteria L'
                 = Inr (uint (max_time L) \<le> (el div ticks_per_unit (time_unit L)) mod 2 ^ 32)
             \<and> (el div ticks_per_unit (time_unit L) < 2 ^ 32 \<longrightarrow>
                  LoggerTime_reachedStopCriteria L'
                    = Inr (uint (max_time L) \<le> el div ticks_per_unit (time_unit L)))"
    unfolding Let_def el_def [symmetric] q_def [symmetric]
    using general small by blast
  show "current_time L \<noteq> [] \<longrightarrow>
            LoggerTime_reachedStopCriteria L = Inr (max_time L \<le> last (current_time L))"
    using assms(1) by (simp add: LoggerTime_reachedStopCriteria_def vector_back_def)
  show "max_time L = 0 \<longrightarrow>
            LoggerTime_reachedStopCriteria (LoggerTime_logStep L n0 n1 i resp pred bl off lr)
              = Inr True"
    using assms(1)
    by (simp add: step LoggerTime_reachedStopCriteria_def vector_back_def)
  show "\<exists>T. LoggerTime_new True 0 ''seconds'' = Inr T
                \<and> stop_after (Time T) [c] = Inr True"
    by (simp add: LoggerTime_new_def stop_after_def LoggerTime_logStep_def
        LoggerTime_reachedStopCriteria_def vector_back_def Let_def)
  show "\<exists>T. LoggerTime_new True 1000000000 ''microseconds'' = Inr T
                \<and> current_time (LoggerTime_logStep T 0 5000000000000 i resp pred bl off lr)
                    = [705032704]
                \<and> LoggerTime_reachedStopCriteria
                     (LoggerTime_logStep T 0 5000000000000 i resp pred bl off lr)
                    = Inr False"
    by (simp add: LoggerTime_new_def LoggerTime_logStep_def
        LoggerTime_reachedStopCriteria_def vector_back_def Let_def
        duration_cast_microseconds_def trunc_div_def word_le_def)
qed

theorem LoggerTime_stops_at_max_time_witness:
  "is_a_stopper \<lparr> is_a_stopper = True, init_time = 0, current_time = [],
                   max_time = 2500, time_unit = ''microseconds'' \<rparr>
   \<and> time_unit_known \<lparr> is_a_stopper = True, init_time = 0, current_time = [],
                        max_time = 2500, time_unit = ''microseconds'' \<rparr>
   \<and> (0 :: int) \<le> 2499999 \<and> (2499999 :: int) div 1000 = 2499
   \<and> LoggerTime_reachedStopCriteria
        (LoggerTime_logStep
           \<lparr> is_a_stopper = True, init_time = 0, current_time = [],
             max_time = 2500, time_unit = ''microseconds'' \<rparr>
           100 2500099 1 [] [] \<lparr> getDataIdentifier = ''x'', predict = (\<lambda>d::unit. []) \<rparr> 0 0)
       = Inr False
   \<and> (0 :: int) \<le> 2500000 \<and> (2500000 :: int) div 1000 = 2500
   \<and> LoggerTime_reachedStopCriteria
        (LoggerTime_logStep
           \<lparr> is_a_stopper = True, init_time = 0, current_time = [],
             max_time = 2500, time_unit = ''microseconds'' \<rparr>
           100 2500100 1 [] [] \<lparr> getDataIdentifier = ''x'', predict = (\<lambda>d::unit. []) \<rparr> 0 0)
       = Inr True
   \<and> last (current_time
        (LoggerTime_logStep
           \<lparr> is_a_stopper = True, init_time = 0, current_time = [],
             max_time = 2500, time_unit = ''microseconds'' \<rparr>
           100 2500100 1 [] [] \<lparr> getDataIdentifier = ''x'', predict = (\<lambda>d::unit. []) \<rparr> 0 0))
       = 2500"
proof -
  let ?L = "\<lparr> is_a_stopper = True, init_time = 0, current_time = [],
              max_time = 2500, time_unit = ''microseconds'' \<rparr>"
  let ?bl = "\<lparr> getDataIdentifier = ''x'', predict = (\<lambda>d::unit. ([] :: real list)) \<rparr>"
  have h1: "is_a_stopper ?L"
    by simp
  have h2: "time_unit_known ?L"
    by (simp add: time_unit_known_def)
  note t = LoggerTime_stops_at_max_time [OF h1 h2]
  note sample = t [THEN conjunct2, THEN conjunct1, unfolded Let_def]
  note test = t [THEN conjunct2, THEN conjunct2, THEN conjunct2, THEN conjunct1,
      unfolded Let_def]
  have a: "LoggerTime_reachedStopCriteria (LoggerTime_logStep ?L 100 2500099 1 [] [] ?bl 0 0)
         = Inr False"
    using test [of 2500099 100 1 "[]" "[]" ?bl 0 0]
    by (simp add: ticks_per_unit_def)
  have b: "LoggerTime_reachedStopCriteria (LoggerTime_logStep ?L 100 2500100 1 [] [] ?bl 0 0)
         = Inr True"
    using test [of 2500100 100 1 "[]" "[]" ?bl 0 0]
    by (simp add: ticks_per_unit_def)
  have c: "last (current_time (LoggerTime_logStep ?L 100 2500100 1 [] [] ?bl 0 0)) = 2500"
    using sample [of 2500100 100 1 "[]" "[]" ?bl 0 0]
    by (simp add: ticks_per_unit_def)
  from h1 h2 a b c show ?thesis
    by simp
qed


subsection \<open>One entry per call of \<^verbatim>\<open>logStep\<close>\<close>

text \<open>
  A call of \<^verbatim>\<open>logStep\<close> that returns appends one entry to the logged data and leaves
  the entries before it as they are; so does a run of calls. Only the calls of
  \<^verbatim>\<open>LoggerOobRisk\<close> can fail. \<^verbatim>\<open>clearLoggerData\<close> empties the logged data.
\<close>

lemma logStep_appends:
  assumes "constructed lg" and "logStep lg c = Inr lg'"
  shows "constructed lg' \<and> (\<exists>x. getLoggedData lg' = getLoggedData lg @ [x])"
proof (cases lg)
  case (Iteration L)
  with assms show ?thesis
    by (auto simp add: LoggerIteration_logStep_def LoggerIteration_getLoggedData_def)
next
  case (InbagRisk L)
  with assms show ?thesis
    by (auto simp add: LoggerInbagRisk_logStep_def LoggerInbagRisk_getLoggedData_def Let_def)
next
  case (OobRisk L)
  with assms show ?thesis
    by (auto simp add: LoggerOobRisk_logStep_def LoggerOobRisk_getLoggedData_def
        LoggerOobRisk_fillOffset_def Let_def split: option.splits sum.splits if_splits)
next
  case (Time L)
  with assms show ?thesis
    by (auto simp add: LoggerTime_logStep_known LoggerTime_getLoggedData_def
        time_unit_known_def)
qed

lemma logSteps_appends:
  assumes "constructed lg" and "logSteps lg cs = Inr lg'"
  shows "constructed lg'
       \<and> (\<exists>xs. length xs = length cs \<and> getLoggedData lg' = getLoggedData lg @ xs)"
  using assms
proof (induction cs arbitrary: lg)
  case Nil
  then show ?case by simp
next
  case (Cons c cs)
  from Cons.prems(2) obtain lg1 where s1: "logStep lg c = Inr lg1"
    and s2: "logSteps lg1 cs = Inr lg'"
    by (auto split: sum.splits)
  from logStep_appends [OF Cons.prems(1) s1] obtain x where c1: "constructed lg1"
    and d1: "getLoggedData lg1 = getLoggedData lg @ [x]"
    by blast
  from Cons.IH [OF c1 s2] obtain xs where c2: "constructed lg'"
    and l2: "length xs = length cs" and d2: "getLoggedData lg' = getLoggedData lg1 @ xs"
    by blast
  have "length (x # xs) = length (c # cs)" using l2 by simp
  moreover have "getLoggedData lg' = getLoggedData lg @ (x # xs)" using d1 d2 by simp
  ultimately show ?case using c2 by blast
qed

lemma logStep_total:
  "is_OobRisk lg \<or> (\<exists>lg'. logStep lg c = Inr lg' \<and> \<not> is_OobRisk lg')"
  by (cases lg) simp_all

lemma logSteps_total:
  "is_OobRisk lg \<or> (\<exists>lg'. logSteps lg cs = Inr lg')"
proof (induction cs arbitrary: lg)
  case Nil
  then show ?case by simp
next
  case (Cons c cs)
  show ?case
  proof (cases "is_OobRisk lg")
    case True
    then show ?thesis by simp
  next
    case False
    with logStep_total [of lg c] obtain lg1 where s1: "logStep lg c = Inr lg1"
      and n1: "\<not> is_OobRisk lg1" by blast
    with Cons.IH [of lg1] show ?thesis by auto
  qed
qed

lemma clear_empty: "getLoggedData (clearLoggerData lg) = []"
  by (cases lg) (simp_all add: LoggerIteration_getLoggedData_def LoggerIteration_clearLoggerData_def
     LoggerInbagRisk_getLoggedData_def LoggerInbagRisk_clearLoggerData_def
     LoggerOobRisk_getLoggedData_def LoggerOobRisk_clearLoggerData_def
     LoggerTime_getLoggedData_def LoggerTime_clearLoggerData_def)

lemma clear_constructed: "constructed (clearLoggerData lg) = constructed lg"
  by (cases lg) (simp_all add: LoggerTime_clearLoggerData_def time_unit_known_def)


lemma logSteps_append:
  "logSteps lg (as @ bs)
     = (case logSteps lg as of Inl e \<Rightarrow> Inl e | Inr lg1 \<Rightarrow> logSteps lg1 bs)"
  by (induction as arbitrary: lg) (simp_all split: sum.splits)

lemma logSteps_prefix:
  assumes "constructed lg" and "logSteps lg cs = Inr lg'" and "k \<le> length cs"
  shows "\<exists>lgk. logSteps lg (take k cs) = Inr lgk
           \<and> getLoggedData lgk = take (length (getLoggedData lg) + k) (getLoggedData lg')"
proof -
  have "logSteps lg (take k cs @ drop k cs) = Inr lg'"
    using assms(2) by simp
  then obtain lgk where p1: "logSteps lg (take k cs) = Inr lgk"
    and p2: "logSteps lgk (drop k cs) = Inr lg'"
    unfolding logSteps_append by (auto split: sum.splits)
  from logSteps_appends [OF assms(1) p1] obtain xs where ck: "constructed lgk"
    and lx: "length xs = length (take k cs)"
    and dx: "getLoggedData lgk = getLoggedData lg @ xs"
    by blast
  from logSteps_appends [OF ck p2] obtain ys
    where dy: "getLoggedData lg' = getLoggedData lgk @ ys"
    by blast
  have "length (getLoggedData lgk) = length (getLoggedData lg) + k"
    using lx dx assms(3) by simp
  then have "getLoggedData lgk = take (length (getLoggedData lg) + k) (getLoggedData lg')"
    using dy by simp
  with p1 show ?thesis by blast
qed

text \<open>
  The values that the calls append: the round index for \<^verbatim>\<open>LoggerIteration\<close>, the mean
  of the loss for \<^verbatim>\<open>LoggerInbagRisk\<close>.
\<close>

lemma logSteps_Iteration:
  "logSteps (Iteration L) cs
     = Inr (Iteration (L\<lparr> iterations := iterations L @ map current_iteration cs \<rparr>))"
  by (induction cs arbitrary: L) (simp_all add: LoggerIteration_logStep_def)

lemma logSteps_InbagRisk:
  "logSteps (InbagRisk L) cs
     = Inr (InbagRisk (L\<lparr> tracked_inbag_risk := tracked_inbag_risk L @
              map (\<lambda>c. arma_mean (definedLoss (LoggerInbagRisk.used_loss L)
                          (response c) (prediction c))) cs \<rparr>))"
  by (induction cs arbitrary: L) (simp_all add: LoggerInbagRisk_logStep_def Let_def)

text \<open>
  When the calls of \<^verbatim>\<open>LoggerOobRisk::logStep\<close> return. The prediction has the size of
  the response after the constructor and keeps it; a call returns exactly in a round
  whose identifier is found and whose base learner predicts a vector of that size,
  and it leaves \<^verbatim>\<open>oob_data\<close> and \<^verbatim>\<open>oob_response\<close> as they are.
\<close>

lemma LoggerOobRisk_logStep_returns_iff:
  assumes "length (oob_prediction L) = length (oob_response L)"
  shows "(\<exists>L'. LoggerOobRisk_logStep L (current_iteration c) (response c) (prediction c)
                 (used_blearner c) (offset c) (learning_rate c) = Inr L')
       = oob_round_ok L c"
  using assms
  by (auto simp add: LoggerOobRisk_logStep_def LoggerOobRisk_fillOffset_def oob_round_ok_def
      arma_plus_eq_def arma_scale_def arma_fill_def Let_def split: option.splits)

lemma LoggerOobRisk_logStep_keeps:
  assumes "LoggerOobRisk_logStep L i resp pred bl off lr = Inr L'"
    and "length (oob_prediction L) = length (oob_response L)"
  shows "oob_data L' = oob_data L \<and> oob_response L' = oob_response L
       \<and> length (oob_prediction L') = length (oob_response L')"
  using assms
  by (auto simp add: LoggerOobRisk_logStep_def LoggerOobRisk_fillOffset_def arma_plus_eq_def
      arma_scale_def arma_fill_def Let_def split: option.splits if_splits)

lemma oob_round_ok_same:
  assumes "oob_data L' = oob_data L" and "oob_response L' = oob_response L"
  shows "oob_round_ok L' c = oob_round_ok L c"
  using assms by (simp add: oob_round_ok_def split: option.splits)

lemma logSteps_OobRisk_returns_iff:
  assumes "length (oob_prediction L) = length (oob_response L)"
  shows "(\<exists>lg'. logSteps (OobRisk L) cs = Inr lg') = list_all (oob_round_ok L) cs"
  using assms
proof (induction cs arbitrary: L)
  case Nil
  then show ?case by simp
next
  case (Cons c cs)
  show ?case
  proof (cases "oob_round_ok L c")
    case False
    with LoggerOobRisk_logStep_returns_iff [OF Cons.prems, of c]
    have "\<And>L'. LoggerOobRisk_logStep L (current_iteration c) (response c) (prediction c)
                 (used_blearner c) (offset c) (learning_rate c) \<noteq> Inr L'"
      by blast
    then have "\<And>lg'. logSteps (OobRisk L) (c # cs) \<noteq> Inr lg'"
      by (auto split: sum.splits)
    with False show ?thesis by simp
  next
    case True
    with LoggerOobRisk_logStep_returns_iff [OF Cons.prems, of c]
    obtain L' where s: "LoggerOobRisk_logStep L (current_iteration c) (response c)
                 (prediction c) (used_blearner c) (offset c) (learning_rate c) = Inr L'"
      by blast
    from LoggerOobRisk_logStep_keeps [OF s Cons.prems]
    have k: "oob_data L' = oob_data L" "oob_response L' = oob_response L"
      "length (oob_prediction L') = length (oob_response L')"
      by simp_all
    have "list_all (oob_round_ok L') cs = list_all (oob_round_ok L) cs"
      using oob_round_ok_same [OF k(1) k(2)] by (simp add: list_all_iff)
    with Cons.IH [OF k(3)] True s show ?thesis
      by simp
  qed
qed

text \<open>
  Claim C9. For a logger of any of the four classes (a \<^verbatim>\<open>LoggerTime\<close> holding one of
  the three units, as its constructor guarantees) and any list \<open>cs\<close> of round contexts:
  the \<open>length cs\<close> calls of \<^verbatim>\<open>logStep\<close> return, unless the logger is a
  \<^verbatim>\<open>LoggerOobRisk\<close> (first conjunct); when they return, the logged data is the data
  before the calls followed by \<open>length cs\<close> new entries, the data after the first \<open>k\<close>
  calls is a prefix of the data after all of them (entries are appended in the order of
  the calls and never changed later), and a logger that starts with no data ends with
  exactly \<open>length cs\<close> entries (second conjunct); after \<^verbatim>\<open>clearLoggerData\<close> the count
  starts at zero again (third conjunct); the loggers that the four constructors build
  start with no data (fourth to seventh conjunct).

  The calls of a \<^verbatim>\<open>LoggerOobRisk\<close> whose prediction has the size of its response, as it
  has after the constructor, return exactly when in every round the identifier of
  the base learner is a key of \<^verbatim>\<open>oob_data\<close> and the base learner predicts one value per
  held-out observation (eighth and ninth conjunct). The entries that the calls of a
  \<^verbatim>\<open>LoggerIteration\<close> append are the round indices, those of a \<^verbatim>\<open>LoggerInbagRisk\<close> the
  means of the loss, in the order of the calls (last two conjuncts).
\<close>

theorem getLoggedData_one_entry_per_logStep:
  assumes "constructed lg"
  shows "(is_OobRisk lg \<or> (\<exists>lg'. logSteps lg cs = Inr lg'))
       \<and> (\<forall>lg'. logSteps lg cs = Inr lg' \<longrightarrow>
             (\<exists>xs. length xs = length cs \<and> getLoggedData lg' = getLoggedData lg @ xs)
           \<and> (\<forall>k \<le> length cs. \<exists>lgk. logSteps lg (take k cs) = Inr lgk
                  \<and> getLoggedData lgk
                      = take (length (getLoggedData lg) + k) (getLoggedData lg'))
           \<and> (getLoggedData lg = [] \<longrightarrow> length (getLoggedData lg') = length cs))
       \<and> (\<forall>lg'. logSteps (clearLoggerData lg) cs = Inr lg' \<longrightarrow>
             length (getLoggedData lg') = length cs)
       \<and> getLoggedData (Iteration (LoggerIteration_new b1 m1) :: 'a logger) = []
       \<and> getLoggedData (InbagRisk (LoggerInbagRisk_new b2 l2 e2) :: 'a logger) = []
       \<and> getLoggedData (OobRisk (LoggerOobRisk_new b3 l3 e3 d3 r3 mem)) = []
       \<and> (\<forall>T. LoggerTime_new b4 m4 u4 = Inr T \<longrightarrow>
             getLoggedData (Time T :: 'a logger) = [] \<and> constructed (Time T :: 'a logger))
       \<and> (\<forall>L. lg = OobRisk L \<and> length (oob_prediction L) = length (oob_response L) \<longrightarrow>
             (\<exists>lg'. logSteps lg cs = Inr lg') = list_all (oob_round_ok L) cs)
       \<and> length (oob_prediction (LoggerOobRisk_new b3 l3 e3 d3 r3 mem))
           = length (oob_response (LoggerOobRisk_new b3 l3 e3 d3 r3 mem))
       \<and> (\<forall>L. lg = Iteration L \<longrightarrow>
             (\<exists>lg'. logSteps lg cs = Inr lg'
                \<and> getLoggedData lg'
                    = getLoggedData lg @ map (\<lambda>c. real (unat (current_iteration c))) cs))
       \<and> (\<forall>L. lg = InbagRisk L \<longrightarrow>
             (\<exists>lg'. logSteps lg cs = Inr lg'
                \<and> getLoggedData lg'
                    = getLoggedData lg @
                      map (\<lambda>c. arma_mean (definedLoss (LoggerInbagRisk.used_loss L)
                                  (response c) (prediction c))) cs))"
proof (intro conjI allI impI)
  show "is_OobRisk lg \<or> (\<exists>lg'. logSteps lg cs = Inr lg')"
    by (rule logSteps_total)
next
  fix lg' assume r: "logSteps lg cs = Inr lg'"
  from logSteps_appends [OF assms r]
  show a: "\<exists>xs. length xs = length cs \<and> getLoggedData lg' = getLoggedData lg @ xs"
    by blast
  show "\<And>k. k \<le> length cs \<Longrightarrow> \<exists>lgk. logSteps lg (take k cs) = Inr lgk
                  \<and> getLoggedData lgk
                      = take (length (getLoggedData lg) + k) (getLoggedData lg')"
    using logSteps_prefix [OF assms r] by blast
  show "getLoggedData lg = [] \<Longrightarrow> length (getLoggedData lg') = length cs"
    using a by auto
next
  fix lg' assume r: "logSteps (clearLoggerData lg) cs = Inr lg'"
  have c: "constructed (clearLoggerData lg)"
    using assms by (simp add: clear_constructed)
  from logSteps_appends [OF c r] show "length (getLoggedData lg') = length cs"
    by (auto simp add: clear_empty)
next
  show "getLoggedData (Iteration (LoggerIteration_new b1 m1) :: 'a logger) = []"
    by (simp add: LoggerIteration_new_def LoggerIteration_getLoggedData_def)
  show "getLoggedData (InbagRisk (LoggerInbagRisk_new b2 l2 e2) :: 'a logger) = []"
    by (simp add: LoggerInbagRisk_new_def LoggerInbagRisk_getLoggedData_def)
  show "getLoggedData (OobRisk (LoggerOobRisk_new b3 l3 e3 d3 r3 mem)) = []"
    by (simp add: LoggerOobRisk_new_def LoggerOobRisk_getLoggedData_def)
  show "length (oob_prediction (LoggerOobRisk_new b3 l3 e3 d3 r3 mem))
           = length (oob_response (LoggerOobRisk_new b3 l3 e3 d3 r3 mem))"
    by (simp add: LoggerOobRisk_new_def arma_vec_of_size_def)
next
  fix T assume n: "LoggerTime_new b4 m4 u4 = Inr T"
  show "getLoggedData (Time T :: 'a logger) = []"
    using n by (auto simp add: LoggerTime_new_def LoggerTime_getLoggedData_def
        split: if_splits)
  show "constructed (Time T :: 'a logger)"
    using n by (auto simp add: LoggerTime_new_def time_unit_known_def split: if_splits)
next
  fix L assume "lg = OobRisk L \<and> length (oob_prediction L) = length (oob_response L)"
  then show "(\<exists>lg'. logSteps lg cs = Inr lg') = list_all (oob_round_ok L) cs"
    using logSteps_OobRisk_returns_iff [of L cs] by simp
next
  fix L assume "lg = Iteration L"
  then show "\<exists>lg'. logSteps lg cs = Inr lg'
                \<and> getLoggedData lg'
                    = getLoggedData lg @ map (\<lambda>c. real (unat (current_iteration c))) cs"
    by (simp add: logSteps_Iteration LoggerIteration_getLoggedData_def comp_def)
next
  fix L assume "lg = InbagRisk L"
  then show "\<exists>lg'. logSteps lg cs = Inr lg'
                \<and> getLoggedData lg'
                    = getLoggedData lg @
                      map (\<lambda>c. arma_mean (definedLoss (LoggerInbagRisk.used_loss L)
                                  (response c) (prediction c))) cs"
    by (simp add: logSteps_InbagRisk LoggerInbagRisk_getLoggedData_def)
qed

theorem getLoggedData_one_entry_per_logStep_witness:
  "constructed (Time \<lparr> is_a_stopper = False, init_time = 0, current_time = [],
                        max_time = 10, time_unit = ''minutes'' \<rparr> :: unit logger)
   \<and> (\<exists>lg'. logSteps
          (Time \<lparr> is_a_stopper = False, init_time = 0, current_time = [],
                  max_time = 10, time_unit = ''minutes'' \<rparr> :: unit logger)
          [\<lparr> current_iteration = 1, response = [1], prediction = [0],
             used_blearner = \<lparr> getDataIdentifier = ''x'', predict = (\<lambda>d. [0]) \<rparr>,
             offset = 0, learning_rate = 0.1, now0 = 100, now1 = 30000000100 \<rparr>,
           \<lparr> current_iteration = 2, response = [1], prediction = [0],
             used_blearner = \<lparr> getDataIdentifier = ''x'', predict = (\<lambda>d. [0]) \<rparr>,
             offset = 0, learning_rate = 0.1, now0 = 30000000200, now1 = 125000000100 \<rparr>]
          = Inr lg'
        \<and> length (getLoggedData lg') = 2
        \<and> getLoggedData lg' = [0, 2])
   \<and> constructed (OobRisk (LoggerOobRisk_new False
          \<lparr> definedLoss = (\<lambda>y f. map2 (\<lambda>a b. \<bar>a - b\<bar>) y f) \<rparr> 0.05
          [''x1'' \<mapsto> (), ''x2'' \<mapsto> ()] [1] (\<lambda>k. 0)))
   \<and> list_all
       (oob_round_ok (LoggerOobRisk_new False
          \<lparr> definedLoss = (\<lambda>y f. map2 (\<lambda>a b. \<bar>a - b\<bar>) y f) \<rparr> 0.05
          [''x1'' \<mapsto> (), ''x2'' \<mapsto> ()] [1] (\<lambda>k. 0)))
       [\<lparr> current_iteration = 1, response = [3], prediction = [0],
          used_blearner = \<lparr> getDataIdentifier = ''x1'', predict = (\<lambda>d. [2]) \<rparr>,
          offset = 0, learning_rate = 0.1, now0 = 0, now1 = 0 \<rparr>,
        \<lparr> current_iteration = 2, response = [3], prediction = [0],
          used_blearner = \<lparr> getDataIdentifier = ''x2'', predict = (\<lambda>d. [4]) \<rparr>,
          offset = 0, learning_rate = 0.1, now0 = 0, now1 = 0 \<rparr>]
   \<and> (\<exists>lg'. logSteps
          (OobRisk (LoggerOobRisk_new False
             \<lparr> definedLoss = (\<lambda>y f. map2 (\<lambda>a b. \<bar>a - b\<bar>) y f) \<rparr> 0.05
             [''x1'' \<mapsto> (), ''x2'' \<mapsto> ()] [1] (\<lambda>k. 0)))
          [\<lparr> current_iteration = 1, response = [3], prediction = [0],
             used_blearner = \<lparr> getDataIdentifier = ''x1'', predict = (\<lambda>d. [2]) \<rparr>,
             offset = 0, learning_rate = 0.1, now0 = 0, now1 = 0 \<rparr>,
           \<lparr> current_iteration = 2, response = [3], prediction = [0],
             used_blearner = \<lparr> getDataIdentifier = ''x2'', predict = (\<lambda>d. [4]) \<rparr>,
             offset = 0, learning_rate = 0.1, now0 = 0, now1 = 0 \<rparr>]
          = Inr lg'
        \<and> length (getLoggedData lg') = 2
        \<and> getLoggedData lg' = [0.8, 0.4])"
proof -
  let ?lg = "Time \<lparr> is_a_stopper = False, init_time = 0, current_time = [],
                    max_time = 10, time_unit = ''minutes'' \<rparr> :: unit logger"
  let ?cs = "[\<lparr> current_iteration = 1, response = [1], prediction = [0],
             used_blearner = \<lparr> getDataIdentifier = ''x'', predict = (\<lambda>d::unit. [0]) \<rparr>,
             offset = 0, learning_rate = 0.1, now0 = 100, now1 = 30000000100 \<rparr>,
           \<lparr> current_iteration = 2, response = [1], prediction = [0],
             used_blearner = \<lparr> getDataIdentifier = ''x'', predict = (\<lambda>d::unit. [0]) \<rparr>,
             offset = 0, learning_rate = 0.1, now0 = 30000000200, now1 = 125000000100 \<rparr>]"
  have h: "constructed ?lg"
    by (simp add: time_unit_known_def)
  note t = getLoggedData_one_entry_per_logStep [OF h, of ?cs]
  from t have "is_OobRisk ?lg \<or> (\<exists>lg'. logSteps ?lg ?cs = Inr lg')"
    by (rule conjunct1)
  then obtain lg' where r: "logSteps ?lg ?cs = Inr lg'"
    by auto
  have e: "getLoggedData ?lg = []"
    by (simp add: LoggerTime_getLoggedData_def)
  from t have "\<forall>lg'. logSteps ?lg ?cs = Inr lg' \<longrightarrow>
             (\<exists>xs. length xs = length ?cs \<and> getLoggedData lg' = getLoggedData ?lg @ xs)
           \<and> (\<forall>k \<le> length ?cs. \<exists>lgk. logSteps ?lg (take k ?cs) = Inr lgk
                  \<and> getLoggedData lgk
                      = take (length (getLoggedData ?lg) + k) (getLoggedData lg'))
           \<and> (getLoggedData ?lg = [] \<longrightarrow> length (getLoggedData lg') = length ?cs)"
    by (rule conjunct2 [THEN conjunct1])
  with r e have "length (getLoggedData lg') = length ?cs"
    by blast
  then have n: "length (getLoggedData lg') = 2"
    by simp
  have "getLoggedData lg' = [0, 2]"
    using r
    by (auto simp add: LoggerTime_logStep_def LoggerTime_getLoggedData_def Let_def
        duration_cast_minutes_def trunc_div_def)
  with r n have time_part: "\<exists>lg'. logSteps ?lg ?cs = Inr lg'
        \<and> length (getLoggedData lg') = 2 \<and> getLoggedData lg' = [0, 2]"
    by blast
  let ?O = "LoggerOobRisk_new False
          \<lparr> definedLoss = (\<lambda>y f. map2 (\<lambda>a b. \<bar>a - b\<bar>) y f) \<rparr> 0.05
          [''x1'' \<mapsto> (), ''x2'' \<mapsto> ()] [1] (\<lambda>k. 0)"
  let ?os = "[\<lparr> current_iteration = 1, response = [3], prediction = [0],
          used_blearner = \<lparr> getDataIdentifier = ''x1'', predict = (\<lambda>d::unit. [2]) \<rparr>,
          offset = 0, learning_rate = 0.1, now0 = 0, now1 = 0 \<rparr>,
        \<lparr> current_iteration = 2, response = [3], prediction = [0],
          used_blearner = \<lparr> getDataIdentifier = ''x2'', predict = (\<lambda>d::unit. [4]) \<rparr>,
          offset = 0, learning_rate = 0.1, now0 = 0, now1 = 0 \<rparr>]"
  have ho: "constructed (OobRisk ?O)"
    by simp
  have ok: "list_all (oob_round_ok ?O) ?os"
    by (simp add: oob_round_ok_def LoggerOobRisk_new_def)
  have sz: "length (oob_prediction ?O) = length (oob_response ?O)"
    by (simp add: LoggerOobRisk_new_def arma_vec_of_size_def)
  have eo: "getLoggedData (OobRisk ?O) = []"
    by (simp add: LoggerOobRisk_new_def LoggerOobRisk_getLoggedData_def)
  note u = getLoggedData_one_entry_per_logStep [OF ho, of ?os]
  from u have "\<forall>L. OobRisk ?O = OobRisk L
                 \<and> length (oob_prediction L) = length (oob_response L) \<longrightarrow>
             (\<exists>lg'. logSteps (OobRisk ?O) ?os = Inr lg') = list_all (oob_round_ok L) ?os"
    by (rule conjunct2 [THEN conjunct2, THEN conjunct2, THEN conjunct2, THEN conjunct2,
          THEN conjunct2, THEN conjunct2, THEN conjunct1])
  with sz ok obtain og where ro: "logSteps (OobRisk ?O) ?os = Inr og"
    by blast
  from u have "\<forall>lg'. logSteps (OobRisk ?O) ?os = Inr lg' \<longrightarrow>
             (\<exists>xs. length xs = length ?os
                \<and> getLoggedData lg' = getLoggedData (OobRisk ?O) @ xs)
           \<and> (\<forall>k \<le> length ?os. \<exists>lgk. logSteps (OobRisk ?O) (take k ?os) = Inr lgk
                  \<and> getLoggedData lgk
                      = take (length (getLoggedData (OobRisk ?O)) + k) (getLoggedData lg'))
           \<and> (getLoggedData (OobRisk ?O) = [] \<longrightarrow> length (getLoggedData lg') = length ?os)"
    by (rule conjunct2 [THEN conjunct1])
  with ro eo have "length (getLoggedData og) = length ?os"
    by blast
  then have no: "length (getLoggedData og) = 2"
    by simp
  have "getLoggedData og = [0.8, 0.4]"
    using ro
    by (auto simp add: LoggerOobRisk_logStep_def LoggerOobRisk_fillOffset_def
        LoggerOobRisk_new_def LoggerOobRisk_getLoggedData_def arma_vec_of_size_def
        arma_fill_def arma_plus_eq_def arma_scale_def arma_accu_def Let_def)
  with ro no have oob_part: "\<exists>lg'. logSteps (OobRisk ?O) ?os = Inr lg'
        \<and> length (getLoggedData lg') = 2 \<and> getLoggedData lg' = [0.8, 0.4]"
    by blast
  from h time_part ho ok oob_part show ?thesis
    by blast
qed


subsection \<open>\<^verbatim>\<open>clearLoggerData\<close> and the configuration\<close>

text \<open>
  Claim C10. In each of the four classes \<^verbatim>\<open>clearLoggerData\<close> leaves the members set by
  the constructor as they are: \<^verbatim>\<open>is_a_stopper\<close> in all of them, \<^verbatim>\<open>max_iterations\<close>; the
  loss and \<^verbatim>\<open>eps_for_break\<close> of both risk loggers; \<^verbatim>\<open>oob_data\<close> and \<^verbatim>\<open>oob_response\<close>;
  \<^verbatim>\<open>max_time\<close> and \<^verbatim>\<open>time_unit\<close>. The object after the call is the object before it with
  the logged vector emptied, and nothing else changed (last four conjuncts).
\<close>

theorem clearLoggerData_keeps_configuration:
  "is_a_stopper (LoggerIteration_clearLoggerData L1) = is_a_stopper L1
   \<and> max_iterations (LoggerIteration_clearLoggerData L1) = max_iterations L1
   \<and> is_a_stopper (LoggerInbagRisk_clearLoggerData L2) = is_a_stopper L2
   \<and> LoggerInbagRisk.used_loss (LoggerInbagRisk_clearLoggerData L2)
       = LoggerInbagRisk.used_loss L2
   \<and> LoggerInbagRisk.eps_for_break (LoggerInbagRisk_clearLoggerData L2)
       = LoggerInbagRisk.eps_for_break L2
   \<and> is_a_stopper (LoggerOobRisk_clearLoggerData L3) = is_a_stopper L3
   \<and> used_loss (LoggerOobRisk_clearLoggerData L3) = used_loss L3
   \<and> eps_for_break (LoggerOobRisk_clearLoggerData L3) = eps_for_break L3
   \<and> oob_data (LoggerOobRisk_clearLoggerData L3) = oob_data L3
   \<and> oob_response (LoggerOobRisk_clearLoggerData L3) = oob_response L3
   \<and> is_a_stopper (LoggerTime_clearLoggerData L4) = is_a_stopper L4
   \<and> max_time (LoggerTime_clearLoggerData L4) = max_time L4
   \<and> time_unit (LoggerTime_clearLoggerData L4) = time_unit L4
   \<and> LoggerIteration_clearLoggerData L1 = L1\<lparr> iterations := [] \<rparr>
   \<and> LoggerInbagRisk_clearLoggerData L2 = L2\<lparr> tracked_inbag_risk := [] \<rparr>
   \<and> LoggerOobRisk_clearLoggerData L3 = L3\<lparr> tracked_oob_risk := [] \<rparr>
   \<and> LoggerTime_clearLoggerData L4 = L4\<lparr> current_time := [] \<rparr>"
  by (simp add: LoggerIteration_clearLoggerData_def LoggerInbagRisk_clearLoggerData_def
      LoggerOobRisk_clearLoggerData_def LoggerTime_clearLoggerData_def)


subsection \<open>The stop criteria on an empty log\<close>

text \<open>
  The two risk loggers test \<^verbatim>\<open>size() > 1\<close> before they read their vector, and a logger
  that is not a stopper reads nothing: on an empty log these return false.
\<close>

lemma reachedStopCriteria_guarded_when_empty:
  "reachedStopCriteria (InbagRisk (LoggerInbagRisk_clearLoggerData L2)) = Inr False
   \<and> reachedStopCriteria (OobRisk (LoggerOobRisk_clearLoggerData L3)) = Inr False
   \<and> reachedStopCriteria (InbagRisk (LoggerInbagRisk_new b2 l2 e2)) = Inr False
   \<and> reachedStopCriteria (OobRisk (LoggerOobRisk_new b3 l3 e3 d3 r3 mem)) = Inr False
   \<and> reachedStopCriteria (Iteration (LoggerIteration_new False m1)) = Inr False
   \<and> reachedStopCriteria (Iteration (LoggerIteration_clearLoggerData (L1\<lparr> is_a_stopper := False \<rparr>))) = Inr False
   \<and> reachedStopCriteria (Time (LoggerTime_clearLoggerData (L4\<lparr> is_a_stopper := False \<rparr>))) = Inr False"
  by (simp add: LoggerInbagRisk_clearLoggerData_def LoggerInbagRisk_reachedStopCriteria_def
      LoggerOobRisk_clearLoggerData_def LoggerOobRisk_reachedStopCriteria_def
      LoggerInbagRisk_new_def LoggerOobRisk_new_def LoggerIteration_new_def
      LoggerIteration_reachedStopCriteria_def LoggerIteration_clearLoggerData_def
      LoggerTime_reachedStopCriteria_def LoggerTime_clearLoggerData_def)

text \<open>
  Claim C3 says that \<^verbatim>\<open>reachedStopCriteria\<close> returns false before any call of
  \<^verbatim>\<open>logStep\<close> and after \<^verbatim>\<open>clearLoggerData\<close>, for every class and configuration.
  \<^verbatim>\<open>LoggerIteration\<close> and \<^verbatim>\<open>LoggerTime\<close> have no test of the size: as stoppers they
  call \<^verbatim>\<open>back()\<close> on the empty vector, which is undefined behaviour, both on a new
  logger and on one that has logged a round and was cleared.
\<close>

theorem reachedStopCriteria_on_empty_log:
  "reachedStopCriteria (Iteration (LoggerIteration_new True 5) :: unit logger)
     = Inl BackOfEmptyVector
   \<and> reachedStopCriteria
       (clearLoggerData (Iteration (LoggerIteration_logStep (LoggerIteration_new True 5) 7 [] []
           \<lparr> getDataIdentifier = ''x'', predict = (\<lambda>d::unit. []) \<rparr> 0 0.1)))
     = Inl BackOfEmptyVector
   \<and> (\<exists>T. LoggerTime_new True 0 ''seconds'' = Inr T
          \<and> reachedStopCriteria (Time T :: unit logger) = Inl BackOfEmptyVector
          \<and> reachedStopCriteria
               (clearLoggerData (Time (LoggerTime_logStep T 0 0 1 [] []
                  \<lparr> getDataIdentifier = ''x'', predict = (\<lambda>d::unit. []) \<rparr> 0 0.1)))
             = Inl BackOfEmptyVector)"
  by (simp add: LoggerIteration_new_def LoggerIteration_logStep_def
      LoggerIteration_clearLoggerData_def LoggerIteration_reachedStopCriteria_def
      LoggerTime_new_def LoggerTime_logStep_def LoggerTime_clearLoggerData_def
      LoggerTime_reachedStopCriteria_def vector_back_def Let_def)

subsection \<open>\<^verbatim>\<open>LoggerOobRisk\<close>: one call of \<^verbatim>\<open>logStep\<close>\<close>

text \<open>
  When the identifier of the base learner is a key of \<^verbatim>\<open>oob_data\<close> and the base learner
  predicts one value per element of \<^verbatim>\<open>oob_prediction\<close>, the call returns: the prediction
  is filled with the offset if the iteration is 1, the scaled prediction of the base
  learner is added, and the risk is appended. When the identifier is not a key, the
  call reaches the read of the end iterator.
\<close>

lemma LoggerOobRisk_logStep_Inr:
  assumes "oob_data L (getDataIdentifier bl) = Some d"
    and "length (predict bl d) = length (oob_prediction L)"
  shows "LoggerOobRisk_logStep L i resp pred bl off lr
       = Inr (L\<lparr> oob_prediction :=
                   map2 (+) (if i = 1 then replicate (length (oob_prediction L)) off
                             else oob_prediction L)
                     (map (\<lambda>x. lr * x) (predict bl d)),
                 tracked_oob_risk := tracked_oob_risk L @
                   [arma_accu (definedLoss (used_loss L) (oob_response L)
                      (map2 (+) (if i = 1 then replicate (length (oob_prediction L)) off
                                 else oob_prediction L)
                         (map (\<lambda>x. lr * x) (predict bl d))))
                    / real (length (definedLoss (used_loss L) (oob_response L)
                      (map2 (+) (if i = 1 then replicate (length (oob_prediction L)) off
                                 else oob_prediction L)
                         (map (\<lambda>x. lr * x) (predict bl d)))))] \<rparr>)"
  using assms
  by (simp add: LoggerOobRisk_logStep_def LoggerOobRisk_fillOffset_def arma_plus_eq_def
      arma_scale_def arma_fill_def Let_def)

lemma LoggerOobRisk_logStep_missing:
  assumes "oob_data L (getDataIdentifier bl) = None"
  shows "LoggerOobRisk_logStep L i resp pred bl off lr = Inl DerefEndIterator"
  using assms
  by (simp add: LoggerOobRisk_logStep_def LoggerOobRisk_fillOffset_def Let_def)

text \<open>
  The size of \<^verbatim>\<open>oob_prediction\<close> is the size of \<^verbatim>\<open>oob_response\<close> after the constructor and
  after every call of \<^verbatim>\<open>logStep\<close> that returns.
\<close>

lemma LoggerOobRisk_new_sizes:
  "length (oob_prediction (LoggerOobRisk_new b l e d r mem))
     = length (oob_response (LoggerOobRisk_new b l e d r mem))"
  by (simp add: LoggerOobRisk_new_def arma_vec_of_size_def)

lemma LoggerOobRisk_logStep_sizes:
  assumes "LoggerOobRisk_logStep L i resp pred bl off lr = Inr L'"
    and "length (oob_prediction L) = length (oob_response L)"
  shows "length (oob_prediction L') = length (oob_response L')"
  using assms
  by (auto simp add: LoggerOobRisk_logStep_def LoggerOobRisk_fillOffset_def arma_plus_eq_def
      arma_scale_def arma_fill_def Let_def split: option.splits if_splits)

text \<open>
  Claim C5 says that \<^verbatim>\<open>logStep\<close> with an identifier that is not in \<^verbatim>\<open>oob_data\<close> fails
  with an error that names the identifier and leaves the logger as it was. The code
  reads \<^verbatim>\<open>oob_data.find(id)->second\<close> unchecked: with the map \<open>{x1}\<close> and the
  identifier \<open>x2\<close> the call is undefined behaviour, no error is raised; and in round 1
  the prediction (here \<open>[0]\<close>) has already been overwritten with the offset (here
  \<open>[3]\<close>) when the map is read.
\<close>

theorem LoggerOobRisk_logStep_missing_identifier:
  "LoggerOobRisk_logStep
     (LoggerOobRisk_new True \<lparr> definedLoss = (\<lambda>y f. map2 (\<lambda>a b. \<bar>a - b\<bar>) y f) \<rparr> 0.05
        [''x1'' \<mapsto> ()] [1] (\<lambda>k. 0))
     1 [] [] \<lparr> getDataIdentifier = ''x2'', predict = (\<lambda>d. [2]) \<rparr> 3 0.1
   = Inl DerefEndIterator
   \<and> oob_prediction
       (LoggerOobRisk_fillOffset
          (LoggerOobRisk_new True \<lparr> definedLoss = (\<lambda>y f. map2 (\<lambda>a b. \<bar>a - b\<bar>) y f) \<rparr> 0.05
             [''x1'' \<mapsto> ()] [1] (\<lambda>k. 0))
          1 3)
     = [3]
   \<and> oob_prediction
       (LoggerOobRisk_new True \<lparr> definedLoss = (\<lambda>y f. map2 (\<lambda>a b. \<bar>a - b\<bar>) y f) \<rparr> 0.05
             [''x1'' \<mapsto> ()] [1] (\<lambda>k. 0))
     = [0]"
  by (simp add: LoggerOobRisk_logStep_def LoggerOobRisk_fillOffset_def LoggerOobRisk_new_def
      arma_vec_of_size_def arma_fill_def Let_def)

text \<open>
  Claim C2 as stated: the first call of \<^verbatim>\<open>logStep\<close> sets the prediction to the offset
  before it adds the scaled prediction of the base learner. The code tests
  \<^verbatim>\<open>current_iteration == 1\<close>, not whether the call is the first one: a first call with
  iteration 2, offset 1, learning rate 0.1 and the prediction 2 of the base learner,
  on a new logger whose vector holds 0, leaves \<open>0 + 0.1 * 2\<close>, not \<open>1 + 0.1 * 2\<close>.
\<close>

theorem LoggerOobRisk_first_call_without_fill:
  "map_sum id oob_prediction
     (LoggerOobRisk_logStep
        (LoggerOobRisk_new True \<lparr> definedLoss = (\<lambda>y f. map2 (\<lambda>a b. \<bar>a - b\<bar>) y f) \<rparr> 0.05
           [''x1'' \<mapsto> ()] [1] (\<lambda>k. 0))
        2 [] [] \<lparr> getDataIdentifier = ''x1'', predict = (\<lambda>d. [2]) \<rparr> 1 0.1)
   = Inr [0.2]
   \<and> map_sum id oob_prediction
     (LoggerOobRisk_logStep
        (LoggerOobRisk_new True \<lparr> definedLoss = (\<lambda>y f. map2 (\<lambda>a b. \<bar>a - b\<bar>) y f) \<rparr> 0.05
           [''x1'' \<mapsto> ()] [1] (\<lambda>k. 0))
        2 [] [] \<lparr> getDataIdentifier = ''x1'', predict = (\<lambda>d. [2]) \<rparr> 1 0.1)
   \<noteq> Inr [1 + 0.1 * 2]"
  by (simp add: LoggerOobRisk_logStep_def LoggerOobRisk_fillOffset_def LoggerOobRisk_new_def
      arma_vec_of_size_def arma_fill_def arma_plus_eq_def arma_scale_def Let_def)

text \<open>
  Claim C2, amended. A call of \<^verbatim>\<open>logStep\<close> whose identifier is found (and whose base
  learner predicts one value per held-out observation) returns, and the prediction
  after it is: the offset in every element if \<^verbatim>\<open>current_iteration\<close> is 1, the prediction
  before the call otherwise; plus the learning rate times the prediction of the base
  learner on the data found (first conjunct). With learning rate 0.1, offset 0.0, one
  held-out observation and the base learner predicting 2.0 in the rounds 1, 2, 3, the
  prediction is 0.2, then 0.4, then 0.6, whatever the vector held after the
  constructor (second conjunct).
\<close>

theorem LoggerOobRisk_logStep_accumulates:
  assumes "oob_data L (getDataIdentifier bl) = Some d"
    and "length (predict bl d) = length (oob_prediction L)"
  shows "(\<exists>L'. LoggerOobRisk_logStep L i resp pred bl off lr = Inr L'
            \<and> oob_prediction L'
                = map2 (+) (if i = 1 then replicate (length (oob_prediction L)) off
                            else oob_prediction L)
                    (map (\<lambda>x. lr * x) (predict bl d)))
       \<and> (\<exists>L1 L2 L3.
             LoggerOobRisk_logStep (LoggerOobRisk_new b l e [k \<mapsto> d0] [y] mem)
                 1 r1 p1 \<lparr> getDataIdentifier = k, predict = (\<lambda>d. [2.0]) \<rparr> 0.0 0.1 = Inr L1
           \<and> oob_prediction L1 = [0.2]
           \<and> LoggerOobRisk_logStep L1
                 2 r2 p2 \<lparr> getDataIdentifier = k, predict = (\<lambda>d. [2.0]) \<rparr> 0.0 0.1 = Inr L2
           \<and> oob_prediction L2 = [0.4]
           \<and> LoggerOobRisk_logStep L2
                 3 r3 p3 \<lparr> getDataIdentifier = k, predict = (\<lambda>d. [2.0]) \<rparr> 0.0 0.1 = Inr L3
           \<and> oob_prediction L3 = [0.6])"
proof (intro conjI)
  show "\<exists>L'. LoggerOobRisk_logStep L i resp pred bl off lr = Inr L'
            \<and> oob_prediction L'
                = map2 (+) (if i = 1 then replicate (length (oob_prediction L)) off
                            else oob_prediction L)
                    (map (\<lambda>x. lr * x) (predict bl d))"
    by (simp add: LoggerOobRisk_logStep_Inr [OF assms])
next
  let ?bl = "\<lparr> getDataIdentifier = k, predict = (\<lambda>d::'b. [2.0::real]) \<rparr>"
  let ?L0 = "LoggerOobRisk_new b l e [k \<mapsto> d0] [y] mem"
  have d0: "oob_data ?L0 (getDataIdentifier ?bl) = Some d0"
    and n0: "length (predict ?bl d0) = length (oob_prediction ?L0)"
    by (simp_all add: LoggerOobRisk_new_def arma_vec_of_size_def)
  have "\<exists>L1. LoggerOobRisk_logStep ?L0 1 r1 p1 ?bl 0.0 0.1 = Inr L1
           \<and> oob_prediction L1 = [0.2] \<and> oob_data L1 = [k \<mapsto> d0]"
    unfolding LoggerOobRisk_logStep_Inr [OF d0 n0]
    by (simp add: LoggerOobRisk_new_def arma_vec_of_size_def)
  then obtain L1 where s1: "LoggerOobRisk_logStep ?L0 1 r1 p1 ?bl 0.0 0.1 = Inr L1"
    and q1: "oob_prediction L1 = [0.2]" and m1: "oob_data L1 = [k \<mapsto> d0]"
    by blast
  have d1: "oob_data L1 (getDataIdentifier ?bl) = Some d0"
    and n1: "length (predict ?bl d0) = length (oob_prediction L1)"
    using q1 m1 by simp_all
  have "\<exists>L2. LoggerOobRisk_logStep L1 2 r2 p2 ?bl 0.0 0.1 = Inr L2
           \<and> oob_prediction L2 = [0.4] \<and> oob_data L2 = [k \<mapsto> d0]"
    unfolding LoggerOobRisk_logStep_Inr [OF d1 n1]
    using q1 m1 by simp
  then obtain L2 where s2: "LoggerOobRisk_logStep L1 2 r2 p2 ?bl 0.0 0.1 = Inr L2"
    and q2: "oob_prediction L2 = [0.4]" and m2: "oob_data L2 = [k \<mapsto> d0]"
    by blast
  have d2: "oob_data L2 (getDataIdentifier ?bl) = Some d0"
    and n2: "length (predict ?bl d0) = length (oob_prediction L2)"
    using q2 m2 by simp_all
  have "\<exists>L3. LoggerOobRisk_logStep L2 3 r3 p3 ?bl 0.0 0.1 = Inr L3
           \<and> oob_prediction L3 = [0.6]"
    unfolding LoggerOobRisk_logStep_Inr [OF d2 n2]
    using q2 by simp
  then obtain L3 where s3: "LoggerOobRisk_logStep L2 3 r3 p3 ?bl 0.0 0.1 = Inr L3"
    and q3: "oob_prediction L3 = [0.6]"
    by blast
  from s1 q1 s2 q2 s3 q3
  show "\<exists>L1 L2 L3.
             LoggerOobRisk_logStep ?L0 1 r1 p1 ?bl 0.0 0.1 = Inr L1
           \<and> oob_prediction L1 = [0.2]
           \<and> LoggerOobRisk_logStep L1 2 r2 p2 ?bl 0.0 0.1 = Inr L2
           \<and> oob_prediction L2 = [0.4]
           \<and> LoggerOobRisk_logStep L2 3 r3 p3 ?bl 0.0 0.1 = Inr L3
           \<and> oob_prediction L3 = [0.6]"
    by blast
qed

theorem LoggerOobRisk_logStep_accumulates_witness:
  "oob_data (LoggerOobRisk_new True \<lparr> definedLoss = (\<lambda>y f. map2 (\<lambda>a b. \<bar>a - b\<bar>) y f) \<rparr>
               0.05 [''x1'' \<mapsto> ()] [1] (\<lambda>k. 7))
     (getDataIdentifier \<lparr> getDataIdentifier = ''x1'', predict = (\<lambda>d. [2]) \<rparr>) = Some ()
   \<and> length (predict \<lparr> getDataIdentifier = ''x1'', predict = (\<lambda>d. [2]) \<rparr> ())
     = length (oob_prediction
         (LoggerOobRisk_new True \<lparr> definedLoss = (\<lambda>y f. map2 (\<lambda>a b. \<bar>a - b\<bar>) y f) \<rparr>
               0.05 [''x1'' \<mapsto> ()] [1] (\<lambda>k. 7)))
   \<and> map_sum id oob_prediction
       (LoggerOobRisk_logStep
          (LoggerOobRisk_new True \<lparr> definedLoss = (\<lambda>y f. map2 (\<lambda>a b. \<bar>a - b\<bar>) y f) \<rparr>
               0.05 [''x1'' \<mapsto> ()] [1] (\<lambda>k. 7))
          1 [] [] \<lparr> getDataIdentifier = ''x1'', predict = (\<lambda>d. [2]) \<rparr> 0 0.1)
     = Inr [0.2]
   \<and> map_sum id oob_prediction
       (LoggerOobRisk_logStep
          (LoggerOobRisk_new True \<lparr> definedLoss = (\<lambda>y f. map2 (\<lambda>a b. \<bar>a - b\<bar>) y f) \<rparr>
               0.05 [''x1'' \<mapsto> ()] [1] (\<lambda>k. 7))
          2 [] [] \<lparr> getDataIdentifier = ''x1'', predict = (\<lambda>d. [2]) \<rparr> 0 0.1)
     = Inr [7.2]"
proof -
  let ?L = "LoggerOobRisk_new True \<lparr> definedLoss = (\<lambda>y f. map2 (\<lambda>a b. \<bar>a - b\<bar>) y f) \<rparr>
               0.05 [''x1'' \<mapsto> ()] [1] (\<lambda>k. 7)"
  let ?bl = "\<lparr> getDataIdentifier = ''x1'', predict = (\<lambda>d::unit. [2::real]) \<rparr>"
  have h1: "oob_data ?L (getDataIdentifier ?bl) = Some ()"
    by (simp add: LoggerOobRisk_new_def)
  have h2: "length (predict ?bl ()) = length (oob_prediction ?L)"
    by (simp add: LoggerOobRisk_new_def arma_vec_of_size_def)
  have p: "oob_prediction ?L = [7]"
    by (simp add: LoggerOobRisk_new_def arma_vec_of_size_def)
  note t = LoggerOobRisk_logStep_accumulates [OF h1 h2, THEN conjunct1]
  from t [of 1 "[]" "[]" 0 "0.1"] obtain L1
    where a1: "LoggerOobRisk_logStep ?L 1 [] [] ?bl 0 0.1 = Inr L1"
      and b1: "oob_prediction L1 = [0.2]"
    unfolding p by auto
  from t [of 2 "[]" "[]" 0 "0.1"] obtain L2
    where a2: "LoggerOobRisk_logStep ?L 2 [] [] ?bl 0 0.1 = Inr L2"
      and b2: "oob_prediction L2 = [7.2]"
    unfolding p by auto
  show ?thesis
    unfolding a1 a2 using h1 h2 b1 b2 by simp
qed


subsection \<open>\<^verbatim>\<open>LoggerOobRisk\<close>: \<^verbatim>\<open>clearLoggerData\<close>\<close>

text \<open>
  Claim C4 as stated: \<^verbatim>\<open>clearLoggerData\<close> empties the tracked risk and sets the
  prediction to zero. The code clears \<^verbatim>\<open>tracked_oob_risk\<close> only: after one round that
  left the prediction \<open>[0.2]\<close>, the prediction of the cleared logger is still \<open>[0.2]\<close>.
\<close>

theorem LoggerOobRisk_clearLoggerData_keeps_prediction:
  "map_sum id (\<lambda>L. oob_prediction (LoggerOobRisk_clearLoggerData L))
     (LoggerOobRisk_logStep
        (LoggerOobRisk_new True \<lparr> definedLoss = (\<lambda>y f. map2 (\<lambda>a b. \<bar>a - b\<bar>) y f) \<rparr> 0.05
           [''x1'' \<mapsto> ()] [1] (\<lambda>k. 0))
        1 [] [] \<lparr> getDataIdentifier = ''x1'', predict = (\<lambda>d. [2]) \<rparr> 0 0.1)
   = Inr [0.2]
   \<and> map_sum id (\<lambda>L. oob_prediction (LoggerOobRisk_clearLoggerData L))
     (LoggerOobRisk_logStep
        (LoggerOobRisk_new True \<lparr> definedLoss = (\<lambda>y f. map2 (\<lambda>a b. \<bar>a - b\<bar>) y f) \<rparr> 0.05
           [''x1'' \<mapsto> ()] [1] (\<lambda>k. 0))
        1 [] [] \<lparr> getDataIdentifier = ''x1'', predict = (\<lambda>d. [2]) \<rparr> 0 0.1)
   \<noteq> Inr [0]"
  by (simp add: LoggerOobRisk_logStep_def LoggerOobRisk_fillOffset_def LoggerOobRisk_new_def
      LoggerOobRisk_clearLoggerData_def
      arma_vec_of_size_def arma_fill_def arma_plus_eq_def arma_scale_def Let_def)

text \<open>
  Claim C4, amended. \<^verbatim>\<open>clearLoggerData\<close> empties the tracked risk and leaves the
  prediction as it is. The prediction is set again by the next call of \<^verbatim>\<open>logStep\<close> with
  iteration 1: on a cleared logger such a call gives the result (the logger after the
  call, or the failure) that it gives on a new logger built with the same
  configuration, whatever that one's vector held after the constructor.
\<close>

theorem LoggerOobRisk_clearLoggerData_then_round_1:
  assumes "length (oob_prediction L) = length (oob_response L)"
  shows "tracked_oob_risk (LoggerOobRisk_clearLoggerData L) = []
       \<and> oob_prediction (LoggerOobRisk_clearLoggerData L) = oob_prediction L
       \<and> LoggerOobRisk_logStep (LoggerOobRisk_clearLoggerData L) 1 resp pred bl off lr
           = LoggerOobRisk_logStep
               (LoggerOobRisk_new (is_a_stopper L) (used_loss L) (eps_for_break L)
                  (oob_data L) (oob_response L) mem)
               1 resp pred bl off lr"
proof (intro conjI)
  show "tracked_oob_risk (LoggerOobRisk_clearLoggerData L) = []"
    and "oob_prediction (LoggerOobRisk_clearLoggerData L) = oob_prediction L"
    by (simp_all add: LoggerOobRisk_clearLoggerData_def)
  have "LoggerOobRisk_fillOffset (LoggerOobRisk_clearLoggerData L) 1 off
      = LoggerOobRisk_fillOffset
          (LoggerOobRisk_new (is_a_stopper L) (used_loss L) (eps_for_break L)
             (oob_data L) (oob_response L) mem) 1 off"
    using assms
    by (cases L) (simp add: LoggerOobRisk_fillOffset_def LoggerOobRisk_clearLoggerData_def
        LoggerOobRisk_new_def arma_fill_def arma_vec_of_size_def)
  then show "LoggerOobRisk_logStep (LoggerOobRisk_clearLoggerData L) 1 resp pred bl off lr
           = LoggerOobRisk_logStep
               (LoggerOobRisk_new (is_a_stopper L) (used_loss L) (eps_for_break L)
                  (oob_data L) (oob_response L) mem)
               1 resp pred bl off lr"
    by (simp add: LoggerOobRisk_logStep_def)
qed

theorem LoggerOobRisk_clearLoggerData_then_round_1_witness:
  "length (oob_prediction
      ((LoggerOobRisk_new True \<lparr> definedLoss = (\<lambda>y f. map2 (\<lambda>a b. \<bar>a - b\<bar>) y f) \<rparr> 0.05
           [''x1'' \<mapsto> ()] [1] (\<lambda>k. 0))
         \<lparr> oob_prediction := [0.2], tracked_oob_risk := [0.8] \<rparr>))
   = length (oob_response
      ((LoggerOobRisk_new True \<lparr> definedLoss = (\<lambda>y f. map2 (\<lambda>a b. \<bar>a - b\<bar>) y f) \<rparr> 0.05
           [''x1'' \<mapsto> ()] [1] (\<lambda>k. 0))
         \<lparr> oob_prediction := [0.2], tracked_oob_risk := [0.8] \<rparr>))
   \<and> LoggerOobRisk_logStep
        (LoggerOobRisk_clearLoggerData
          ((LoggerOobRisk_new True \<lparr> definedLoss = (\<lambda>y f. map2 (\<lambda>a b. \<bar>a - b\<bar>) y f) \<rparr> 0.05
             [''x1'' \<mapsto> ()] [1] (\<lambda>k. 0))
           \<lparr> oob_prediction := [0.2], tracked_oob_risk := [0.8] \<rparr>))
        1 [] [] \<lparr> getDataIdentifier = ''x1'', predict = (\<lambda>d. [2]) \<rparr> 0 0.1
     = LoggerOobRisk_logStep
        (LoggerOobRisk_new True \<lparr> definedLoss = (\<lambda>y f. map2 (\<lambda>a b. \<bar>a - b\<bar>) y f) \<rparr> 0.05
           [''x1'' \<mapsto> ()] [1] (\<lambda>k. 5))
        1 [] [] \<lparr> getDataIdentifier = ''x1'', predict = (\<lambda>d. [2]) \<rparr> 0 0.1"
proof -
  let ?L = "(LoggerOobRisk_new True \<lparr> definedLoss = (\<lambda>y f. map2 (\<lambda>a b. \<bar>a - b\<bar>) y f) \<rparr> 0.05
           [''x1'' \<mapsto> ()] [1] (\<lambda>k. 0))
         \<lparr> oob_prediction := [0.2], tracked_oob_risk := [0.8] \<rparr>"
  have h: "length (oob_prediction ?L) = length (oob_response ?L)"
    by (simp add: LoggerOobRisk_new_def)
  have c: "LoggerOobRisk_new (is_a_stopper ?L) (used_loss ?L) (eps_for_break ?L)
             (oob_data ?L) (oob_response ?L) (\<lambda>k. 5)
         = LoggerOobRisk_new True \<lparr> definedLoss = (\<lambda>y f. map2 (\<lambda>a b. \<bar>a - b\<bar>) y f) \<rparr> 0.05
             [''x1'' \<mapsto> ()] [1] (\<lambda>k. 5)"
    by (simp add: LoggerOobRisk_new_def)
  from LoggerOobRisk_clearLoggerData_then_round_1 [OF h, where mem = "\<lambda>k. 5"]
  have "LoggerOobRisk_logStep (LoggerOobRisk_clearLoggerData ?L) 1 []  []
          \<lparr> getDataIdentifier = ''x1'', predict = (\<lambda>d. [2]) \<rparr> 0 0.1
      = LoggerOobRisk_logStep
          (LoggerOobRisk_new (is_a_stopper ?L) (used_loss ?L) (eps_for_break ?L)
             (oob_data ?L) (oob_response ?L) (\<lambda>k. 5))
          1 [] [] \<lparr> getDataIdentifier = ''x1'', predict = (\<lambda>d. [2]) \<rparr> 0 0.1"
    by blast
  with h show ?thesis
    unfolding c by blast
qed


subsection \<open>\<^verbatim>\<open>LoggerTime\<close>: the constructor\<close>

text \<open>
  Claim C6 as stated: the constructor, given a unit outside the three, fails with an
  error that reports the offending value. The error for \<open>days\<close> carries the fixed
  message of the source, in which \<open>days\<close> does not occur.
\<close>

theorem LoggerTime_new_message_without_value:
  "LoggerTime_new True 0 ''days''
     = Inl (RError ''Time unit has to be one of 'microseconds', 'seconds' or 'minutes'.'')
   \<and> \<not> sublist ''days'' ''Time unit has to be one of 'microseconds', 'seconds' or 'minutes'.''"
proof
  show "LoggerTime_new True 0 ''days''
     = Inl (RError ''Time unit has to be one of 'microseconds', 'seconds' or 'minutes'.'')"
    by (simp add: LoggerTime_new_def)
  show "\<not> sublist ''days'' ''Time unit has to be one of 'microseconds', 'seconds' or 'minutes'.''"
    by code_simp
qed

text \<open>
  Claim C6, amended. The constructor builds a logger exactly for the units
  \<open>seconds\<close>, \<open>minutes\<close> and \<open>microseconds\<close>, and the logger holds the unit given; for any
  other unit, \<open>days\<close> among them, it builds nothing and raises the error with the
  fixed message that lists the three units. There is no default unit.
\<close>

theorem LoggerTime_new_checks_time_unit:
  "LoggerTime_new b m u
     = (if u = ''seconds'' \<or> u = ''minutes'' \<or> u = ''microseconds''
        then Inr \<lparr> is_a_stopper = b, init_time = 0, current_time = [],
                   max_time = m, time_unit = u \<rparr>
        else Inl (RError
          ''Time unit has to be one of 'microseconds', 'seconds' or 'minutes'.''))
   \<and> LoggerTime_new b m ''days''
       = Inl (RError ''Time unit has to be one of 'microseconds', 'seconds' or 'minutes'.'')"
  by (simp add: LoggerTime_new_def)

theorem LoggerTime_new_checks_time_unit_witness:
  "LoggerTime_new False 60 ''hours''
     = Inl (RError ''Time unit has to be one of 'microseconds', 'seconds' or 'minutes'.'')
   \<and> LoggerTime_new False 60 ''minutes''
     = Inr \<lparr> is_a_stopper = False, init_time = 0, current_time = [],
             max_time = 60, time_unit = ''minutes'' \<rparr>"
  using LoggerTime_new_checks_time_unit [of False 60 "''hours''", THEN conjunct1]
    LoggerTime_new_checks_time_unit [of False 60 "''minutes''", THEN conjunct1]
  by simp

end
